theory Spec2Isabelle
  imports Complex_Main "HOL-Library.Word"
begin

section \<open>Errors and machine integers\<close>

text \<open>
  Every exception class the sources throw is a constructor; the argument is the fixed
  part of the message (the numbers that \<open>std::to_string\<close> appends are left out).
  \<open>StdOutOfRange\<close>, \<open>StdInvalidArgument\<close> and \<open>StdLengthError\<close> are the standard
  library's \<open>std::out_of_range\<close>, \<open>std::invalid_argument\<close> and \<open>std::length_error\<close>.
  \<open>UndefinedBehaviour\<close> is not an exception: it marks the places where the source goes
  on with an uninitialised variable (a stream read that came up short and is not checked)
  or divides an integer by zero, after which C++ promises nothing.
\<close>

datatype error =
    FileIOException string
  | ConfigurationException string
  | ModelException string
  | TokenizerException string
  | StdOutOfRange string
  | StdInvalidArgument string
  | StdLengthError string
  | UndefinedBehaviour string

text \<open>
  \<open>int\<close> is 32 bits wide and \<open>size_t\<close> 64 bits wide (data/WEIGHT_FORMAT.md).
  Values of type \<open>int\<close> are modelled as HOL integers, values of type \<open>size_t\<close> as
  natural numbers; the two implicit conversions of C++ are written out.
\<close>

definition size_t_of_int :: "int \<Rightarrow> nat" where
  \<comment> \<open>\<open>int\<close> to \<open>size_t\<close>: reduction modulo \<open>2^64\<close>\<close>
  "size_t_of_int i = nat (i mod 2 ^ 64)"

definition int_of_size_t :: "nat \<Rightarrow> int" where
  \<comment> \<open>\<open>size_t\<close> or \<open>ptrdiff_t\<close> to \<open>int\<close>: the low 32 bits, read as two's complement\<close>
  "int_of_size_t n = sint (word_of_nat n :: 32 word)"

section \<open>Matrices and the model's data\<close>

text \<open>
  \<open>Matrix<T>\<close>: a flat row-major buffer with its two dimensions. Member names are
  the source's without the trailing underscore; where two classes share a member name
  (\<open>model_dim_\<close>, \<open>num_heads_\<close>) the record field carries the class as a prefix. The element type is a
  parameter: the weight codec moves \<open>float\<close> values as their four bytes and never
  computes with them, so there an element is the 32-bit object representation
  (\<open>float32\<close>); the numeric code is modelled over the real numbers.
\<close>

type_synonym byte = "8 word"
type_synonym float32 = "32 word"

record 'a Matrix =
  rows :: nat
  cols :: nat
  data :: "'a list"

definition Matrix_resize :: "'a::zero Matrix \<Rightarrow> nat \<Rightarrow> nat \<Rightarrow> 'a Matrix" where
  \<comment> \<open>\<open>resize(r, c)\<close>, that is \<open>data_.resize(r * c)\<close>: the product is taken in \<open>size_t\<close>; elements that exist
      are kept, new ones are value-initialised\<close>
  "Matrix_resize M r c =
     (let n = (r * c) mod 2 ^ 64
      in \<lparr>rows = r, cols = c,
          data = take n (data M) @ replicate (n - length (data M)) 0\<rparr>)"

definition Matrix_new :: "nat \<Rightarrow> nat \<Rightarrow> 'a::zero Matrix" where
  \<comment> \<open>the constructor \<open>Matrix(rows, cols)\<close>\<close>
  "Matrix_new r c = \<lparr>rows = r, cols = c, data = replicate ((r * c) mod 2 ^ 64) 0\<rparr>"

definition Matrix_fill :: "'a Matrix \<Rightarrow> 'a \<Rightarrow> 'a Matrix" where
  "Matrix_fill M v = M\<lparr>data := map (\<lambda>_. v) (data M)\<rparr>"

record 'a MultiHeadAttention =
  query_weights :: "'a Matrix"
  key_weights :: "'a Matrix"
  value_weights :: "'a Matrix"
  output_weights :: "'a Matrix"
  mha_num_heads :: int
  head_dim :: int
  mha_model_dim :: int

record 'a FeedForwardNetwork =
  linear1_weights :: "'a Matrix"
  linear1_bias :: "'a list"
  linear2_weights :: "'a Matrix"
  linear2_bias :: "'a list"
  ffn_model_dim :: int
  hidden_dim :: int

record 'a TransformerBlock =
  attention :: "'a MultiHeadAttention"
  ffn :: "'a FeedForwardNetwork"
  layer_norm1_weight :: "'a list"
  layer_norm1_bias :: "'a list"
  layer_norm2_weight :: "'a list"
  layer_norm2_bias :: "'a list"
  blk_model_dim :: int

record 'a ModelConfig =
  model_dim :: int
  num_layers :: int
  num_heads :: int
  ffn_hidden_dim :: int
  max_sequence_length :: int
  vocab_size :: int
  dropout_rate :: 'a

section \<open>The tokenizer's vocabulary\<close>

record Vocabulary =
  token_to_id :: "string \<rightharpoonup> int"
  id_to_token :: "string list"
  unk_token_id :: int
  pad_token_id :: int
  bos_token_id :: int
  eos_token_id :: int

definition UNK_TOKEN :: string where "UNK_TOKEN = ''<unk>''"
definition PAD_TOKEN :: string where "PAD_TOKEN = ''<pad>''"
definition BOS_TOKEN :: string where "BOS_TOKEN = ''<bos>''"
definition EOS_TOKEN :: string where "EOS_TOKEN = ''<eos>''"

definition add_token :: "Vocabulary \<Rightarrow> string \<Rightarrow> int \<times> Vocabulary" where
  \<comment> \<open>returns the token's tid and the vocabulary after the call\<close>
  "add_token v token =
     (case token_to_id v token of
        Some tid \<Rightarrow> (tid, v)
      | None \<Rightarrow>
          (let tid = int_of_size_t (length (id_to_token v))
           in (tid, v\<lparr>token_to_id := (token_to_id v)(token \<mapsto> tid),
                     id_to_token := id_to_token v @ [token]\<rparr>)))"

definition Vocabulary_new :: Vocabulary where
  \<comment> \<open>the constructor: the four ids start at -1, then the special tokens are added\<close>
  "Vocabulary_new =
     (let v0 = \<lparr>token_to_id = Map.empty, id_to_token = [], unk_token_id = -1,
                pad_token_id = -1, bos_token_id = -1, eos_token_id = -1\<rparr>;
          (unk, v1) = add_token v0 UNK_TOKEN;
          (pad, v2) = add_token (v1\<lparr>unk_token_id := unk\<rparr>) PAD_TOKEN;
          (bos, v3) = add_token (v2\<lparr>pad_token_id := pad\<rparr>) BOS_TOKEN;
          (eos, v4) = add_token (v3\<lparr>bos_token_id := bos\<rparr>) EOS_TOKEN
      in v4\<lparr>eos_token_id := eos\<rparr>)"

definition Vocabulary_size :: "Vocabulary \<Rightarrow> nat" where
  "Vocabulary_size v = length (id_to_token v)"

definition get_token_id :: "Vocabulary \<Rightarrow> string \<Rightarrow> int" where
  "get_token_id v token =
     (case token_to_id v token of Some tid \<Rightarrow> tid | None \<Rightarrow> unk_token_id v)"

definition get_token :: "Vocabulary \<Rightarrow> int \<Rightarrow> string" where
  \<comment> \<open>\<open>id_to_token[i]\<close> is the unchecked \<open>operator[]\<close>; for an index outside the vector
      the source's behaviour is undefined and \<open>!\<close> is unspecified\<close>
  "get_token v tid =
     (if tid < 0 \<or> tid \<ge> int_of_size_t (length (id_to_token v))
      then id_to_token v ! size_t_of_int (unk_token_id v)
      else id_to_token v ! size_t_of_int tid)"

record BPETokenizer =
  vocab :: Vocabulary
  bpe_merges :: "(string \<times> string) list"
  bpe_ranks :: "string \<rightharpoonup> int"

definition BPETokenizer_new :: BPETokenizer where
  \<comment> \<open>the member \<open>vocab_\<close> is built by \<open>Vocabulary()\<close>, which adds the special tokens\<close>
  "BPETokenizer_new = \<lparr>vocab = Vocabulary_new, bpe_merges = [], bpe_ranks = Map.empty\<rparr>"

definition tokenizer_vocab_size :: "BPETokenizer \<Rightarrow> nat" where
  "tokenizer_vocab_size t = Vocabulary_size (vocab t)"

section \<open>The model object\<close>

text \<open>
  \<open>tokenizer_\<close> is a \<open>std::unique_ptr\<close>: \<open>None\<close> is the null pointer. The transformer
  blocks are owned through pointers that are never null, so the vector of pointers is
  the list of blocks.
\<close>

record 'a TinyLlamaModel =
  tokenizer :: "BPETokenizer option"
  embedding_weights :: "'a Matrix"
  position_embeddings :: "'a Matrix"
  transformer_blocks :: "'a TransformerBlock list"
  output_projection :: "'a Matrix"
  config :: "'a ModelConfig"
  temperature :: 'a

definition bind_err :: "error + 'a \<Rightarrow> ('a \<Rightarrow> error + 'b) \<Rightarrow> error + 'b" where
  \<comment> \<open>sequencing: an exception of the first computation ends the second\<close>
  "bind_err r f = (case r of Inl e \<Rightarrow> Inl e | Inr x \<Rightarrow> f x)"

definition c_rem :: "int \<Rightarrow> int \<Rightarrow> int" where
  \<comment> \<open>the operator \<open>%\<close> of C++: the remainder of the division that truncates\<close>
  "c_rem a b = sgn a * (\<bar>a\<bar> mod \<bar>b\<bar>)"

definition c_quot :: "int \<Rightarrow> int \<Rightarrow> int" where
  \<comment> \<open>the operator \<open>/\<close> of C++ on \<open>int\<close>: the quotient truncated towards zero\<close>
  "c_quot a b = sgn a * sgn b * (\<bar>a\<bar> div \<bar>b\<bar>)"

text \<open>
  The constructors. \<open>MultiHeadAttention\<close> fills its four matrices from \<open>rand()\<close>; the
  values drawn are the parameter \<open>rnd\<close> (the buffers of the query, key, value and
  output matrices, each of \<open>model_dim * model_dim\<close> entries). \<open>one\<close> is the value \<open>1.0f\<close> in the element type. Allocation failure
  is outside the model.
\<close>

definition MultiHeadAttention_new ::
  "int \<Rightarrow> int \<Rightarrow> ('a list \<times> 'a list \<times> 'a list \<times> 'a list) \<Rightarrow> error + 'a MultiHeadAttention" where
  "MultiHeadAttention_new md nh rnd =
     (if nh = 0 then Inl (UndefinedBehaviour ''model_dim % num_heads with num_heads = 0'')
      else if c_rem md nh \<noteq> 0
      then Inl (ConfigurationException ''Model dimension must be divisible by number of heads'')
      else (case rnd of (qw, kw, vw, ow) \<Rightarrow>
        Inr \<lparr>query_weights = \<lparr>rows = size_t_of_int md, cols = size_t_of_int md, data = qw\<rparr>,
             key_weights = \<lparr>rows = size_t_of_int md, cols = size_t_of_int md, data = kw\<rparr>,
             value_weights = \<lparr>rows = size_t_of_int md, cols = size_t_of_int md, data = vw\<rparr>,
             output_weights = \<lparr>rows = size_t_of_int md, cols = size_t_of_int md, data = ow\<rparr>,
             mha_num_heads = nh, head_dim = c_quot md nh, mha_model_dim = md\<rparr>))"

definition FeedForwardNetwork_new :: "int \<Rightarrow> int \<Rightarrow> 'a::zero FeedForwardNetwork" where
  "FeedForwardNetwork_new md hdim =
     \<lparr>linear1_weights = Matrix_new (size_t_of_int md) (size_t_of_int hdim),
      linear1_bias = replicate (size_t_of_int hdim) 0,
      linear2_weights = Matrix_new (size_t_of_int hdim) (size_t_of_int md),
      linear2_bias = replicate (size_t_of_int md) 0,
      ffn_model_dim = md, hidden_dim = hdim\<rparr>"

definition TransformerBlock_new ::
  "'a \<Rightarrow> int \<Rightarrow> int \<Rightarrow> int \<Rightarrow> ('a list \<times> 'a list \<times> 'a list \<times> 'a list)
    \<Rightarrow> error + 'a::zero TransformerBlock" where
  "TransformerBlock_new one md nh fhd rnd =
     bind_err (MultiHeadAttention_new md nh rnd) (\<lambda>att.
       Inr \<lparr>attention = att, ffn = FeedForwardNetwork_new md fhd,
            layer_norm1_weight = replicate (size_t_of_int md) one,
            layer_norm1_bias = replicate (size_t_of_int md) 0,
            layer_norm2_weight = replicate (size_t_of_int md) one,
            layer_norm2_bias = replicate (size_t_of_int md) 0,
            blk_model_dim = md\<rparr>)"

fun new_blocks ::
  "'a \<Rightarrow> 'a ModelConfig \<Rightarrow> ('a list \<times> 'a list \<times> 'a list \<times> 'a list) list
    \<Rightarrow> error + 'a::zero TransformerBlock list" where
  \<comment> \<open>the loop \<open>for (i = 0; i < num_layers; ++i) push_back(...)\<close>, one draw per layer\<close>
  "new_blocks one cfg [] = Inr []"
| "new_blocks one cfg (rnd # rnds) =
     bind_err (TransformerBlock_new one (model_dim cfg) (num_heads cfg) (ffn_hidden_dim cfg) rnd)
       (\<lambda>b. bind_err (new_blocks one cfg rnds) (\<lambda>bs. Inr (b # bs)))"

definition TinyLlamaModel_new ::
  "'a \<Rightarrow> 'a ModelConfig \<Rightarrow> (nat \<Rightarrow> 'a list \<times> 'a list \<times> 'a list \<times> 'a list)
    \<Rightarrow> error + 'a::zero TinyLlamaModel" where
  \<comment> \<open>\<open>TinyLlamaModel(config)\<close>; \<open>rnd l\<close> is what layer \<open>l\<close> draws; the temperature starts
      at \<open>1.0f\<close>\<close>
  "TinyLlamaModel_new one cfg rnd =
     bind_err (new_blocks one cfg (map rnd [0..<nat (num_layers cfg)])) (\<lambda>blocks.
       Inr \<lparr>tokenizer = Some BPETokenizer_new,
            embedding_weights =
              Matrix_fill (Matrix_new (size_t_of_int (vocab_size cfg)) (size_t_of_int (model_dim cfg))) 0,
            position_embeddings =
              Matrix_fill (Matrix_new (size_t_of_int (max_sequence_length cfg))
                (size_t_of_int (model_dim cfg))) 0,
            transformer_blocks = blocks,
            output_projection =
              Matrix_fill (Matrix_new (size_t_of_int (model_dim cfg)) (size_t_of_int (vocab_size cfg))) 0,
            config = cfg, temperature = one\<rparr>)"

definition is_initialized :: "'a TinyLlamaModel \<Rightarrow> bool" where
  "is_initialized m =
     (case tokenizer m of
        None \<Rightarrow> False
      | Some t \<Rightarrow> if tokenizer_vocab_size t = 0 then False else True)"

section \<open>Greedy sampling: \<open>TinyLlamaModel::sample_token\<close>\<close>

text \<open>
  \<open>std::max_element\<close>: \<open>largest\<close> starts at the first element and moves to a later
  element only when that one is strictly greater. The loop carries the value and the
  index of \<open>largest\<close> and the index of the element under inspection.
\<close>

fun max_element_loop :: "'a::linorder list \<Rightarrow> nat \<Rightarrow> 'a \<Rightarrow> nat \<Rightarrow> nat" where
  "max_element_loop [] i largest largest_i = largest_i"
| "max_element_loop (x # xs) i largest largest_i =
     (if largest < x then max_element_loop xs (Suc i) x i
      else max_element_loop xs (Suc i) largest largest_i)"

definition max_element :: "'a::linorder list \<Rightarrow> nat" where
  \<comment> \<open>the distance from \<open>begin\<close> to the iterator \<open>std::max_element\<close> returns\<close>
  "max_element xs = (case xs of [] \<Rightarrow> 0 | x # rest \<Rightarrow> max_element_loop rest 1 x 0)"

definition sample_token :: "real list \<Rightarrow> error + int" where
  "sample_token probabilities =
     (if probabilities = [] then Inl (ModelException ''Empty probability distribution'')
      else Inr (int_of_size_t (max_element probabilities)))"

section \<open>Binary files\<close>

text \<open>
  A file is its sequence of bytes. Integers are stored in the host's byte order, which
  is little-endian on the targets of the format (data/WEIGHT_FORMAT.md): \<open>le_bytes n v\<close>
  is the \<open>n\<close> low bytes of \<open>v\<close>, \<open>le_value\<close> reads them back. A \<open>float\<close> is stored as
  its four bytes.
\<close>

fun le_bytes :: "nat \<Rightarrow> nat \<Rightarrow> byte list" where
  "le_bytes 0 v = []"
| "le_bytes (Suc n) v = word_of_nat (v mod 256) # le_bytes n (v div 256)"

fun le_value :: "byte list \<Rightarrow> nat" where
  "le_value [] = 0"
| "le_value (b # bs) = unat b + 256 * le_value bs"

definition write_u32 :: "32 word \<Rightarrow> byte list" where
  "write_u32 w = le_bytes 4 (unat w)"

definition write_int :: "int \<Rightarrow> byte list" where
  \<comment> \<open>an \<open>int\<close> in two's complement\<close>
  "write_int i = le_bytes 4 (nat (i mod 2 ^ 32))"

definition write_size_t :: "nat \<Rightarrow> byte list" where
  "write_size_t n = le_bytes 8 n"

definition write_floats :: "float32 list \<Rightarrow> byte list" where
  "write_floats fs = concat (map write_u32 fs)"

text \<open>
  \<open>file.read(buffer, n)\<close> on the bytes that are left: \<open>None\<close> when fewer than \<open>n\<close> remain
  (the stream sets its fail bit and stores what there was).
\<close>

definition read_u32 :: "byte list \<Rightarrow> (32 word \<times> byte list) option" where
  "read_u32 s = (if length s < 4 then None else Some (word_of_nat (le_value (take 4 s)), drop 4 s))"

definition read_int :: "byte list \<Rightarrow> (int \<times> byte list) option" where
  "read_int s =
     (if length s < 4 then None
      else Some (sint (word_of_nat (le_value (take 4 s)) :: 32 word), drop 4 s))"

definition read_size_t :: "byte list \<Rightarrow> (nat \<times> byte list) option" where
  "read_size_t s = (if length s < 8 then None else Some (le_value (take 8 s), drop 8 s))"

fun decode_floats :: "nat \<Rightarrow> byte list \<Rightarrow> float32 list" where
  "decode_floats 0 s = []"
| "decode_floats (Suc n) s = word_of_nat (le_value (take 4 s)) # decode_floats n (drop 4 s)"

definition read_floats :: "nat \<Rightarrow> byte list \<Rightarrow> (float32 list \<times> byte list) option" where
  "read_floats n s =
     (if length s < 4 * n then None else Some (decode_floats n s, drop (4 * n) s))"

definition alloc_ok :: "nat \<Rightarrow> bool" where
  \<comment> \<open>\<open>std::vector<float>\<close> of \<open>n\<close> elements can be asked for: beyond \<open>max_size()\<close>, which is
      \<open>2^61 - 1\<close> for a four-byte element on a 64-bit target, \<open>resize\<close> and the constructor
      throw \<open>std::length_error\<close>. Running out of memory below that is outside the model.\<close>
  "alloc_ok n = (n < 2 ^ 61)"

record filesystem =
  files :: "string \<rightharpoonup> byte list"
  creatable :: "string \<Rightarrow> bool"

section \<open>\<open>Matrix<float>::save_to_file\<close> and \<open>load_from_file\<close>\<close>

definition Matrix_bytes :: "float32 Matrix \<Rightarrow> byte list" where
  \<comment> \<open>what \<open>save_to_file\<close> writes: \<open>rows_\<close>, \<open>cols_\<close>, then \<open>data_.size() * sizeof(T)\<close> bytes\<close>
  "Matrix_bytes M = write_size_t (rows M) @ write_size_t (cols M) @ write_floats (data M)"

definition save_to_file :: "float32 Matrix \<Rightarrow> string \<Rightarrow> filesystem \<Rightarrow> error + filesystem" where
  \<comment> \<open>a write that fails after the file was opened (a full disk) is outside the model\<close>
  "save_to_file M filename fs =
     (if \<not> creatable fs filename then Inl (FileIOException ''Cannot open file for writing'')
      else Inr (fs\<lparr>files := (files fs)(filename \<mapsto> Matrix_bytes M)\<rparr>))"

definition load_from_file :: "float32 Matrix \<Rightarrow> string \<Rightarrow> filesystem \<Rightarrow> error + float32 Matrix" where
  "load_from_file M filename fs =
     (case files fs filename of
        None \<Rightarrow> Inl (FileIOException ''Cannot open file for reading'')
      | Some s \<Rightarrow>
          (case read_size_t s of
             None \<Rightarrow> Inl (FileIOException ''Failed to read matrix dimensions from file'')
           | Some (r, s1) \<Rightarrow>
               (case read_size_t s1 of
                  None \<Rightarrow> Inl (FileIOException ''Failed to read matrix dimensions from file'')
                | Some (c, s2) \<Rightarrow>
                    (let n = (r * c) mod 2 ^ 64
                     in if \<not> alloc_ok n then Inl (StdLengthError ''vector::resize'')
                        else (case read_floats n s2 of
                                None \<Rightarrow> Inl (FileIOException ''Failed to read matrix data from file'')
                              | Some (fs', rest) \<Rightarrow> Inr \<lparr>rows = r, cols = c, data = fs'\<rparr>)))))"

section \<open>The weight codec: \<open>TinyLlamaModel::load_model_weights\<close>\<close>

text \<open>
  The loader calls \<open>file.read\<close> without looking at the stream's state afterwards. A read
  that comes up short consumes what is left, so every later read is short as well. Where
  the target of a short read is a local variable without initialiser (the magic number,
  the version, the dimensions of a tensor) the source goes on with an indeterminate value:
  \<open>UndefinedBehaviour\<close>. A short read of a tensor's buffer is followed by the read of the
  next tensor's dimensions, which is short in turn, with one exception: the buffer of the
  output projection, the last tensor of the file.

  An exception leaves the object with the tensors read so far; the model returns the
  exception alone.
\<close>

definition read_matrix ::
  "string \<Rightarrow> nat \<Rightarrow> nat \<Rightarrow> byte list \<Rightarrow> error + (float32 Matrix \<times> byte list)" where
  \<comment> \<open>the dimensions, their comparison with the expected ones, the buffer\<close>
  "read_matrix what exp_rows exp_cols s =
     (case read_size_t s of
        None \<Rightarrow> Inl (UndefinedBehaviour what)
      | Some (r, s1) \<Rightarrow>
          (case read_size_t s1 of
             None \<Rightarrow> Inl (UndefinedBehaviour what)
           | Some (c, s2) \<Rightarrow>
               if r \<noteq> exp_rows \<or> c \<noteq> exp_cols
               then Inl (FileIOException (what @ '' dimension mismatch''))
               else (let n = (r * c) mod 2 ^ 64
                     in if \<not> alloc_ok n then Inl (StdLengthError ''vector'')
                        else (case read_floats n s2 of
                                None \<Rightarrow> Inl (UndefinedBehaviour what)
                              | Some (fs, s3) \<Rightarrow> Inr (\<lparr>rows = r, cols = c, data = fs\<rparr>, s3)))))"

definition read_vector :: "string \<Rightarrow> nat \<Rightarrow> byte list \<Rightarrow> error + (float32 list \<times> byte list)" where
  "read_vector what exp_size s =
     (case read_size_t s of
        None \<Rightarrow> Inl (UndefinedBehaviour what)
      | Some (n, s1) \<Rightarrow>
          if n \<noteq> exp_size then Inl (FileIOException (what @ '' dimension mismatch''))
          else if \<not> alloc_ok n then Inl (StdLengthError ''vector'')
          else (case read_floats n s1 of
                  None \<Rightarrow> Inl (UndefinedBehaviour what)
                | Some (fs, s2) \<Rightarrow> Inr (fs, s2)))"

definition load_attention_weights ::
  "float32 TinyLlamaModel \<Rightarrow> byte list \<Rightarrow> int \<Rightarrow> error + (float32 TinyLlamaModel \<times> byte list)" where
  "load_attention_weights m s layer_index =
     (if layer_index < 0 \<or> layer_index \<ge> num_layers (config m)
      then Inl (ModelException ''Invalid layer index'')
      else (let md = size_t_of_int (model_dim (config m)) in
        bind_err (read_matrix ''Query weights'' md md s) (\<lambda>(q, s1).
        bind_err (read_matrix ''Key weights'' md md s1) (\<lambda>(k, s2).
        bind_err (read_matrix ''Value weights'' md md s2) (\<lambda>(v, s3).
        bind_err (read_matrix ''Output weights'' md md s3) (\<lambda>(ow, s4).
          (let blk = transformer_blocks m ! nat layer_index;
               att = (attention blk)\<lparr>query_weights := q, key_weights := k,
                                     value_weights := v, output_weights := ow\<rparr>
           in Inr (m\<lparr>transformer_blocks :=
                       (transformer_blocks m)[nat layer_index := blk\<lparr>attention := att\<rparr>]\<rparr>,
                   s4))))))))"

definition load_ffn_weights ::
  "float32 TinyLlamaModel \<Rightarrow> byte list \<Rightarrow> int \<Rightarrow> error + (float32 TinyLlamaModel \<times> byte list)" where
  "load_ffn_weights m s layer_index =
     (if layer_index < 0 \<or> layer_index \<ge> num_layers (config m)
      then Inl (ModelException ''Invalid layer index'')
      else (let md = size_t_of_int (model_dim (config m));
                fhd = size_t_of_int (ffn_hidden_dim (config m)) in
        bind_err (read_matrix ''Linear1 weights'' md fhd s) (\<lambda>(l1, s1).
        bind_err (read_vector ''Linear1 bias'' fhd s1) (\<lambda>(b1, s2).
        bind_err (read_matrix ''Linear2 weights'' fhd md s2) (\<lambda>(l2, s3).
        bind_err (read_vector ''Linear2 bias'' md s3) (\<lambda>(b2, s4).
          (let blk = transformer_blocks m ! nat layer_index;
               f = (ffn blk)\<lparr>linear1_weights := l1, linear1_bias := b1,
                               linear2_weights := l2, linear2_bias := b2\<rparr>
           in Inr (m\<lparr>transformer_blocks :=
                       (transformer_blocks m)[nat layer_index := blk\<lparr>ffn := f\<rparr>]\<rparr>,
                   s4))))))))"

definition load_layer_norm_weights ::
  "float32 TinyLlamaModel \<Rightarrow> byte list \<Rightarrow> int \<Rightarrow> error + (float32 TinyLlamaModel \<times> byte list)" where
  "load_layer_norm_weights m s layer_index =
     (if layer_index < 0 \<or> layer_index \<ge> num_layers (config m)
      then Inl (ModelException ''Invalid layer index'')
      else (let md = size_t_of_int (model_dim (config m)) in
        bind_err (read_vector ''Layer norm 1 weights'' md s) (\<lambda>(w1, s1).
        bind_err (read_vector ''Layer norm 1 bias'' md s1) (\<lambda>(b1, s2).
        bind_err (read_vector ''Layer norm 2 weights'' md s2) (\<lambda>(w2, s3).
        bind_err (read_vector ''Layer norm 2 bias'' md s3) (\<lambda>(b2, s4).
          (let blk = transformer_blocks m ! nat layer_index
           in Inr (m\<lparr>transformer_blocks :=
                       (transformer_blocks m)[nat layer_index :=
                          blk\<lparr>layer_norm1_weight := w1, layer_norm1_bias := b1,
                              layer_norm2_weight := w2, layer_norm2_bias := b2\<rparr>]\<rparr>,
                   s4))))))))"

fun load_layers ::
  "nat \<Rightarrow> int \<Rightarrow> float32 TinyLlamaModel \<Rightarrow> byte list
    \<Rightarrow> error + (float32 TinyLlamaModel \<times> byte list)" where
  \<comment> \<open>the loop over the layers: \<open>k\<close> iterations are left, the next index is \<open>layer\<close>\<close>
  "load_layers 0 layer m s = Inr (m, s)"
| "load_layers (Suc k) layer m s =
     bind_err (load_attention_weights m s layer) (\<lambda>(m1, s1).
     bind_err (load_ffn_weights m1 s1 layer) (\<lambda>(m2, s2).
     bind_err (load_layer_norm_weights m2 s2 layer) (\<lambda>(m3, s3).
       load_layers k (layer + 1) m3 s3)))"

definition read_int_into :: "int \<Rightarrow> byte list \<Rightarrow> int \<times> byte list" where
  \<comment> \<open>a read into an \<open>int\<close> that holds \<open>d\<close>: a short read replaces the low bytes only\<close>
  "read_int_into d s =
     (sint (word_of_nat (le_value (take 4 s @ drop (length (take 4 s)) (write_int d))) :: 32 word),
      drop 4 s)"

definition read_float_into :: "float32 \<Rightarrow> byte list \<Rightarrow> float32 \<times> byte list" where
  "read_float_into d s =
     (word_of_nat (le_value (take 4 s @ drop (length (take 4 s)) (write_u32 d))), drop 4 s)"

definition default_dropout_rate :: float32 where
  \<comment> \<open>\<open>0.1f\<close>, the default member initialiser of \<open>ModelConfig::dropout_rate\<close>\<close>
  "default_dropout_rate = 0x3DCCCCCD"

definition read_file_config :: "byte list \<Rightarrow> float32 ModelConfig \<times> byte list" where
  \<comment> \<open>\<open>ModelConfig file_config\<close> starts from the default member initialisers; seven reads\<close>
  "read_file_config s =
     (let (md, s1) = read_int_into 512 s;
          (nl, s2) = read_int_into 6 s1;
          (nh, s3) = read_int_into 8 s2;
          (fhd, s4) = read_int_into 2048 s3;
          (msl, s5) = read_int_into 1024 s4;
          (vs, s6) = read_int_into 32000 s5;
          (dr, s7) = read_float_into default_dropout_rate s6
      in (\<lparr>model_dim = md, num_layers = nl, num_heads = nh, ffn_hidden_dim = fhd,
           max_sequence_length = msl, vocab_size = vs, dropout_rate = dr\<rparr>, s7))"

definition read_output_projection ::
  "float32 TinyLlamaModel \<Rightarrow> byte list \<Rightarrow> error + float32 TinyLlamaModel" where
  \<comment> \<open>the last tensor, and the test for a byte after it\<close>
  "read_output_projection m s =
     (case read_size_t s of
        None \<Rightarrow> Inl (UndefinedBehaviour ''Output projection'')
      | Some (r, s1) \<Rightarrow>
          (case read_size_t s1 of
             None \<Rightarrow> Inl (UndefinedBehaviour ''Output projection'')
           | Some (c, s2) \<Rightarrow>
               if r \<noteq> size_t_of_int (model_dim (config m)) \<or> c \<noteq> size_t_of_int (vocab_size (config m))
               then Inl (FileIOException ''Output projection dimension mismatch'')
               else (let n = (r * c) mod 2 ^ 64
                     in if \<not> alloc_ok n then Inl (StdLengthError ''vector'')
                        else (let resized = Matrix_resize (output_projection m) r c;
                                  got = take (4 * n) s2;
                                  buffer = got @ drop (length got) (write_floats (data resized))
                              in if length s2 > 4 * n
                                 then Inl (FileIOException ''Unexpected data at end of weights file'')
                                 else Inr (m\<lparr>output_projection :=
                                             resized\<lparr>data := decode_floats n buffer\<rparr>\<rparr>)))))"

definition load_weights_body :: "float32 TinyLlamaModel \<Rightarrow> byte list \<Rightarrow> error + float32 TinyLlamaModel" where
  \<comment> \<open>the \<open>try\<close> block\<close>
  "load_weights_body m s =
     (case read_u32 s of
        None \<Rightarrow> Inl (UndefinedBehaviour ''magic_number'')
      | Some (magic_number, s1) \<Rightarrow>
          if magic_number \<noteq> 0x544C4C4D
          then Inl (FileIOException ''Invalid magic number in weights file'')
          else (case read_u32 s1 of
             None \<Rightarrow> Inl (UndefinedBehaviour ''version'')
           | Some (version, s2) \<Rightarrow>
               if version \<noteq> 1 then Inl (FileIOException ''Unsupported weights file version'')
               else (case read_file_config s2 of (file_config, s3) \<Rightarrow>
                 if model_dim file_config \<noteq> model_dim (config m)
                 then Inl (FileIOException ''Model dimension mismatch'')
                 else if num_layers file_config \<noteq> num_layers (config m)
                 then Inl (FileIOException ''Number of layers mismatch'')
                 else if num_heads file_config \<noteq> num_heads (config m)
                 then Inl (FileIOException ''Number of heads mismatch'')
                 else if vocab_size file_config \<noteq> vocab_size (config m)
                 then Inl (FileIOException ''Vocabulary size mismatch'')
                 else
                   bind_err (read_matrix ''Embedding weights''
                       (size_t_of_int (vocab_size (config m))) (size_t_of_int (model_dim (config m))) s3)
                     (\<lambda>(emb, s4).
                   bind_err (read_matrix ''Position embeddings''
                       (size_t_of_int (max_sequence_length (config m)))
                       (size_t_of_int (model_dim (config m))) s4)
                     (\<lambda>(pos, s5).
                   bind_err (load_layers (nat (num_layers (config m))) 0
                       (m\<lparr>embedding_weights := emb, position_embeddings := pos\<rparr>) s5)
                     (\<lambda>(m1, s6). read_output_projection m1 s6))))))"

definition load_model_weights ::
  "float32 TinyLlamaModel \<Rightarrow> string \<Rightarrow> filesystem \<Rightarrow> error + float32 TinyLlamaModel" where
  \<comment> \<open>the handlers: a \<open>FileIOException\<close> passes, any other exception becomes one\<close>
  "load_model_weights m weights_file fs =
     (case files fs weights_file of
        None \<Rightarrow> Inl (FileIOException ''Cannot open model weights file'')
      | Some s \<Rightarrow>
          (case load_weights_body m s of
             Inr m' \<Rightarrow> Inr m'
           | Inl (FileIOException msg) \<Rightarrow> Inl (FileIOException msg)
           | Inl (UndefinedBehaviour what) \<Rightarrow> Inl (UndefinedBehaviour what)
           | Inl e \<Rightarrow> Inl (FileIOException ''Error loading model weights'')))"

section \<open>The weight codec: \<open>TinyLlamaModel::save_model_weights\<close>\<close>

definition float_0_1 :: float32 where "float_0_1 = 0x3DCCCCCD"
definition float_1_0 :: float32 where "float_1_0 = 0x3F800000"
definition float_0_0 :: float32 where "float_0_0 = 0"

definition dummy_matrix_bytes :: "nat \<Rightarrow> nat \<Rightarrow> float32 \<Rightarrow> byte list" where
  \<comment> \<open>dimensions, then \<open>std::vector<float>(r * c, value)\<close>\<close>
  "dummy_matrix_bytes r c v =
     write_size_t r @ write_size_t c @ write_floats (replicate ((r * c) mod 2 ^ 64) v)"

definition dummy_vector_bytes :: "nat \<Rightarrow> float32 \<Rightarrow> byte list" where
  "dummy_vector_bytes n v = write_size_t n @ write_floats (replicate n v)"

definition layer_bytes :: "float32 ModelConfig \<Rightarrow> byte list" where
  \<comment> \<open>the body of the loop over the layers; it reads \<open>config_\<close> and nothing else\<close>
  "layer_bytes cfg =
     (let md = size_t_of_int (model_dim cfg); fhd = size_t_of_int (ffn_hidden_dim cfg)
      in concat (replicate 4 (dummy_matrix_bytes md md float_0_1))
         @ dummy_matrix_bytes md fhd float_0_1
         @ dummy_vector_bytes fhd float_0_0
         @ dummy_matrix_bytes fhd md float_0_1
         @ dummy_vector_bytes md float_0_0
         @ dummy_vector_bytes md float_1_0
         @ dummy_vector_bytes md float_0_0
         @ dummy_vector_bytes md float_1_0
         @ dummy_vector_bytes md float_0_0)"

definition header_bytes :: "float32 ModelConfig \<Rightarrow> byte list" where
  \<comment> \<open>the magic number, the version and the seven fields of a configuration\<close>
  "header_bytes cfg =
     write_u32 0x544C4C4D @ write_u32 1
     @ write_int (model_dim cfg) @ write_int (num_layers cfg)
     @ write_int (num_heads cfg) @ write_int (ffn_hidden_dim cfg)
     @ write_int (max_sequence_length cfg) @ write_int (vocab_size cfg)
     @ write_u32 (dropout_rate cfg)"

definition tensor_bytes :: "float32 TinyLlamaModel \<Rightarrow> byte list" where
  \<comment> \<open>everything after the header; the three matrices written from memory hold
      \<open>rows * cols\<close> elements\<close>
  "tensor_bytes m =
     Matrix_bytes (embedding_weights m)
     @ Matrix_bytes (position_embeddings m)
     @ concat (replicate (nat (num_layers (config m))) (layer_bytes (config m)))
     @ Matrix_bytes (output_projection m)"

definition weights_file_bytes :: "float32 TinyLlamaModel \<Rightarrow> byte list" where
  \<comment> \<open>everything \<open>save_model_weights\<close> writes\<close>
  "weights_file_bytes m = header_bytes (config m) @ tensor_bytes m"

definition save_model_weights ::
  "float32 TinyLlamaModel \<Rightarrow> string \<Rightarrow> filesystem \<Rightarrow> error + filesystem" where
  "save_model_weights m weights_file fs =
     (if \<not> creatable fs weights_file then Inl (FileIOException ''Cannot create model weights file'')
      else Inr (fs\<lparr>files := (files fs)(weights_file \<mapsto> weights_file_bytes m)\<rparr>))"

section \<open>Numeric code: matrices over the reals\<close>

text \<open>
  The numeric code is modelled over the real numbers: a \<open>float\<close> is the real it denotes
  and the operations are exact, so rounding, overflow, infinities and NaN are outside the
  model, with the exceptions that are written out: \<open>std::exp\<close> returns \<open>0.0f\<close> for an
  argument far below zero (\<open>std_exp\<close>); in \<open>TinyLlamaModel::softmax\<close> the division by a
  zero temperature and the overflow of the exponentials at a negative temperature give NaN;
  and \<open>softmax_fl\<close> is \<open>softmax\<close> with the rounding of every operation.

  \<open>cell M i j\<close> is \<open>M(i, j)\<close> once the bounds check has passed. A loop nest that assigns
  every cell of a fresh matrix is \<open>Matrix_tabulate\<close>. The bounds checks of \<open>operator()\<close>
  inside such a loop nest are hoisted: the condition under which some access of the nest
  is out of bounds is tested before, and yields the \<open>std::out_of_range\<close> the access throws.
\<close>

definition cell :: "'a Matrix \<Rightarrow> nat \<Rightarrow> nat \<Rightarrow> 'a" where
  "cell M i j = data M ! (i * cols M + j)"

definition Matrix_tabulate :: "nat \<Rightarrow> nat \<Rightarrow> (nat \<Rightarrow> nat \<Rightarrow> 'a) \<Rightarrow> 'a Matrix" where
  "Matrix_tabulate r c f =
     \<lparr>rows = r, cols = c, data = concat (map (\<lambda>i. map (f i) [0..<c]) [0..<r])\<rparr>"

definition Matrix_mul :: "real Matrix \<Rightarrow> real Matrix \<Rightarrow> error + real Matrix" where
  \<comment> \<open>\<open>operator*\<close>: the triple loop, \<open>sum\<close> starting at 0\<close>
  "Matrix_mul A B =
     (if cols A \<noteq> rows B
      then Inl (StdInvalidArgument ''Matrix dimensions incompatible for multiplication'')
      else Inr (Matrix_tabulate (rows A) (cols B)
                 (\<lambda>i j. foldl (\<lambda>sum k. sum + cell A i k * cell B k j) 0 [0..<cols A])))"

definition Matrix_transpose :: "'a Matrix \<Rightarrow> 'a Matrix" where
  "Matrix_transpose A = Matrix_tabulate (cols A) (rows A) (\<lambda>i j. cell A j i)"

section \<open>\<open>MultiHeadAttention\<close>\<close>

definition std_exp :: "real \<Rightarrow> real" where
  \<comment> \<open>\<open>std::exp\<close> on a \<open>float\<close>. \<open>exp (-104)\<close> is below \<open>2^-150\<close>, half of the smallest positive
      \<open>float\<close>: from \<open>-104\<close> down the result is \<open>0.0f\<close>. Above, the value is the exponential.\<close>
  "std_exp x = (if x \<le> - 104 then 0 else exp x)"

definition FLT_MAX :: real where
  \<comment> \<open>the largest finite \<open>float\<close>, \<open>(2 - 2^-23) * 2^127\<close>\<close>
  "FLT_MAX = 2 ^ 128 - 2 ^ 104"

definition max_from_minus_infinity :: "real list \<Rightarrow> real" where
  \<comment> \<open>\<open>max_val\<close> starts at minus infinity and takes \<open>std::max\<close> with every entry; for a row
      without entries the value is not used\<close>
  "max_from_minus_infinity xs = (case xs of [] \<Rightarrow> 0 | x # rest \<Rightarrow> foldl max x rest)"

definition row_softmax :: "real list \<Rightarrow> real list" where
  \<comment> \<open>one iteration of the loop over the rows in \<open>scaled_dot_product_attention\<close>\<close>
  "row_softmax xs =
     (let max_val = max_from_minus_infinity xs;
          exp_values = map (\<lambda>x. std_exp (x - max_val)) xs;
          sum_exp = foldl (+) 0 exp_values
      in map (\<lambda>e. e / sum_exp) exp_values)"

definition scaled_dot_product_attention ::
  "real Matrix \<Rightarrow> real Matrix \<Rightarrow> real Matrix \<Rightarrow> real Matrix option \<Rightarrow> error + real Matrix" where
  \<comment> \<open>\<open>scores\<close> has \<open>rows Q\<close> rows and \<open>rows K\<close> columns; the mask loop and the softmax loop
      index it up to \<open>seq_len\<close> in both directions\<close>
  "scaled_dot_product_attention Q K V attn_mask =
     (let seq_len = rows Q; d_k = cols Q in
      bind_err (Matrix_mul Q (Matrix_transpose K)) (\<lambda>scores0.
        (let scale_factor = 1 / sqrt (real d_k);
             scores1 = scores0\<lparr>data := map (\<lambda>x. x * scale_factor) (data scores0)\<rparr>
         in if (case attn_mask of None \<Rightarrow> False | Some mk \<Rightarrow> rows mk \<noteq> seq_len \<or> cols mk \<noteq> seq_len)
            then Inl (ModelException ''Attention mask dimensions mismatch'')
            else if rows K < seq_len then Inl (StdOutOfRange ''Matrix index out of bounds'')
            else (let scores =
                        (case attn_mask of
                           None \<Rightarrow> scores1
                         | Some mk \<Rightarrow>
                             Matrix_tabulate (rows scores1) (cols scores1)
                               (\<lambda>i j. if j < seq_len \<and> cell mk i j = 0 then - 1000000000
                                      else cell scores1 i j));
                      attention_weights =
                        Matrix_tabulate seq_len seq_len
                          (\<lambda>i j. row_softmax (map (cell scores i) [0..<seq_len]) ! j)
                  in Matrix_mul attention_weights V))))"

fun attention_heads ::
  "real MultiHeadAttention \<Rightarrow> real Matrix \<Rightarrow> real Matrix \<Rightarrow> real Matrix \<Rightarrow> real Matrix option
    \<Rightarrow> nat list \<Rightarrow> real Matrix \<Rightarrow> error + real Matrix" where
  \<comment> \<open>the loop over the heads; the last argument is \<open>output\<close> as the heads before have
      left it. A negative \<open>head_dim_\<close> asks for a matrix that cannot be allocated.\<close>
  "attention_heads att query key val attn_mask [] output = Inr output"
| "attention_heads att query key val attn_mask (h # hs) output =
     (let seq_len = rows query; hdim = nat (head_dim att); lo = h * hdim
      in if head_dim att < 0 then Inl (StdLengthError ''vector'')
         else if 0 < seq_len \<and> 0 < hdim
                 \<and> \<not> (lo + hdim \<le> cols query \<and> lo + hdim \<le> cols key \<and> lo + hdim \<le> cols val)
         then Inl (StdOutOfRange ''Matrix index out of bounds'')
         else bind_err
           (scaled_dot_product_attention
              (Matrix_tabulate seq_len hdim (\<lambda>i j. cell query i (lo + j)))
              (Matrix_tabulate seq_len hdim (\<lambda>i j. cell key i (lo + j)))
              (Matrix_tabulate seq_len hdim (\<lambda>i j. cell val i (lo + j))) attn_mask)
           (\<lambda>head_output.
              if 0 < seq_len \<and> 0 < hdim \<and> \<not> lo + hdim \<le> cols output
              then Inl (StdOutOfRange ''Matrix index out of bounds'')
              else attention_heads att query key val attn_mask hs
                     (Matrix_tabulate (rows output) (cols output)
                        (\<lambda>i c. if lo \<le> c \<and> c < lo + hdim then cell head_output i (c - lo)
                               else cell output i c))))"

definition MultiHeadAttention_forward ::
  "real MultiHeadAttention \<Rightarrow> real Matrix \<Rightarrow> real Matrix option \<Rightarrow> error + real Matrix" where
  "MultiHeadAttention_forward att input attn_mask =
     bind_err (Matrix_mul input (query_weights att)) (\<lambda>query.
     bind_err (Matrix_mul input (key_weights att)) (\<lambda>key.
     bind_err (Matrix_mul input (value_weights att)) (\<lambda>val.
     bind_err (attention_heads att query key val attn_mask [0..<nat (mha_num_heads att)]
                 (Matrix_tabulate (rows input) (size_t_of_int (mha_model_dim att)) (\<lambda>i j. 0)))
       (\<lambda>output. Matrix_mul output (output_weights att)))))"

section \<open>\<open>FeedForwardNetwork\<close>\<close>

definition gelu :: "real \<Rightarrow> real" where
  \<comment> \<open>one element of \<open>gelu_activation\<close>\<close>
  "gelu x = (let x3 = x * x * x;
                 inner = 0.7978845608028654 * (x + 0.044715 * x3)
             in 0.5 * x * (1 + tanh inner))"

definition gelu_activation :: "real list \<Rightarrow> real list" where
  "gelu_activation input = map gelu input"

definition add_bias :: "real Matrix \<Rightarrow> real list \<Rightarrow> error + real Matrix" where
  \<comment> \<open>\<open>M(i, j) += bias[j]\<close> for every cell; \<open>bias[j]\<close> is an unchecked access\<close>
  "add_bias M bias =
     (if 0 < rows M \<and> length bias < cols M then Inl (UndefinedBehaviour ''bias[j]'')
      else Inr (Matrix_tabulate (rows M) (cols M) (\<lambda>i j. cell M i j + bias ! j)))"

definition FeedForwardNetwork_forward :: "real FeedForwardNetwork \<Rightarrow> real Matrix \<Rightarrow> error + real Matrix" where
  \<comment> \<open>the activation loop touches the first \<open>hidden_dim_\<close> columns of every row\<close>
  "FeedForwardNetwork_forward f input =
     (if cols input \<noteq> size_t_of_int (ffn_model_dim f)
      then Inl (ModelException ''Input dimension mismatch for FFN'')
      else
        bind_err (Matrix_mul input (linear1_weights f)) (\<lambda>hidden0.
        bind_err (add_bias hidden0 (linear1_bias f)) (\<lambda>hidden1.
          (let hdim = size_t_of_int (hidden_dim f)
           in if 0 < rows hidden1 \<and> \<not> alloc_ok hdim then Inl (StdLengthError ''vector'')
              else if 0 < rows hidden1 \<and> cols hidden1 < hdim
              then Inl (StdOutOfRange ''Matrix index out of bounds'')
              else
                (let hidden =
                       Matrix_tabulate (rows hidden1) (cols hidden1)
                         (\<lambda>i j. if j < hdim
                                then gelu_activation (map (cell hidden1 i) [0..<hdim]) ! j
                                else cell hidden1 i j)
                 in bind_err (Matrix_mul hidden (linear2_weights f)) (\<lambda>output.
                      add_bias output (linear2_bias f)))))))"

section \<open>\<open>TransformerBlock\<close>\<close>

definition layer_norm_row :: "real list \<Rightarrow> real list \<Rightarrow> real list \<Rightarrow> real list" where
  \<comment> \<open>one iteration of the loop over the rows in \<open>layer_norm\<close>\<close>
  "layer_norm_row xs weight bias =
     (let n = real (length xs);
          mean = foldl (+) 0 xs / n;
          variance = foldl (\<lambda>v x. v + (x - mean) * (x - mean)) 0 xs / n;
          epsilon = 1 / 100000
      in map (\<lambda>j. (xs ! j - mean) / sqrt (variance + epsilon) * weight ! j + bias ! j)
           [0..<length xs])"

definition layer_norm ::
  "real TransformerBlock \<Rightarrow> real Matrix \<Rightarrow> real list \<Rightarrow> real list \<Rightarrow> error + real Matrix" where
  "layer_norm blk input weight bias =
     (if cols input \<noteq> size_t_of_int (blk_model_dim blk)
      then Inl (ModelException ''Input dimension mismatch for layer normalization'')
      else if length weight \<noteq> size_t_of_int (blk_model_dim blk)
              \<or> length bias \<noteq> size_t_of_int (blk_model_dim blk)
      then Inl (ModelException ''Weight or bias dimension mismatch for layer normalization'')
      else Inr (Matrix_tabulate (rows input) (cols input)
                 (\<lambda>i j. layer_norm_row (map (cell input i) [0..<cols input]) weight bias ! j)))"

definition add_residual :: "real Matrix \<Rightarrow> real Matrix \<Rightarrow> error + real Matrix" where
  \<comment> \<open>a copy of \<open>A\<close> with \<open>A(i, j) += B(i, j)\<close> for every cell of \<open>A\<close>\<close>
  "add_residual A B =
     (if 0 < rows A \<and> 0 < cols A \<and> \<not> (rows A \<le> rows B \<and> cols A \<le> cols B)
      then Inl (StdOutOfRange ''Matrix index out of bounds'')
      else Inr (Matrix_tabulate (rows A) (cols A) (\<lambda>i j. cell A i j + cell B i j)))"

definition TransformerBlock_forward ::
  "real TransformerBlock \<Rightarrow> real Matrix \<Rightarrow> real Matrix option \<Rightarrow> error + real Matrix" where
  "TransformerBlock_forward blk input attn_mask =
     (if cols input \<noteq> size_t_of_int (blk_model_dim blk)
      then Inl (ModelException ''Input dimension mismatch for transformer block'')
      else
        bind_err (layer_norm blk input (layer_norm1_weight blk) (layer_norm1_bias blk))
          (\<lambda>normalized_input.
        bind_err (MultiHeadAttention_forward (attention blk) normalized_input attn_mask)
          (\<lambda>attention_output.
        bind_err (add_residual input attention_output) (\<lambda>residual1.
        bind_err (layer_norm blk residual1 (layer_norm2_weight blk) (layer_norm2_bias blk))
          (\<lambda>normalized_residual.
        bind_err (FeedForwardNetwork_forward (ffn blk) normalized_residual) (\<lambda>ffn_output.
          add_residual residual1 ffn_output))))))"

section \<open>\<open>TinyLlamaModel::forward\<close>\<close>

definition create_attention_mask :: "int \<Rightarrow> real Matrix" where
  \<comment> \<open>the parameter is an \<open>int\<close>; the loops run while \<open>i < sequence_length\<close>\<close>
  "create_attention_mask sequence_length =
     Matrix_tabulate (size_t_of_int sequence_length) (size_t_of_int sequence_length)
       (\<lambda>i j. if int i < sequence_length \<and> int j < sequence_length \<and> j \<le> i then 1 else 0)"

fun embed_tokens :: "real TinyLlamaModel \<Rightarrow> nat \<Rightarrow> int list \<Rightarrow> error + real list list" where
  \<comment> \<open>the loop over the positions, from position \<open>i\<close> on: the check of the token id, then
      the row of \<open>embeddings\<close> (zero, plus the token's embedding, plus the position's)\<close>
  "embed_tokens m i [] = Inr []"
| "embed_tokens m i (token_id # rest) =
     (let md = nat (model_dim (config m))
      in if token_id < 0 \<or> token_id \<ge> vocab_size (config m)
         then Inl (ModelException ''Token ID out of range'')
         else if 0 < md
                 \<and> \<not> (nat token_id < rows (embedding_weights m) \<and> md \<le> cols (embedding_weights m)
                        \<and> i < rows (position_embeddings m) \<and> md \<le> cols (position_embeddings m))
         then Inl (StdOutOfRange ''Matrix index out of bounds'')
         else bind_err (embed_tokens m (Suc i) rest) (\<lambda>rows_below.
                Inr (map (\<lambda>j. 0 + cell (embedding_weights m) (nat token_id) j
                                 + cell (position_embeddings m) i j) [0..<md]
                     # rows_below)))"

fun forward_blocks ::
  "real TransformerBlock list \<Rightarrow> real Matrix \<Rightarrow> real Matrix \<Rightarrow> error + real Matrix" where
  "forward_blocks [] attention_mask hidden_states = Inr hidden_states"
| "forward_blocks (blk # blks) attention_mask hidden_states =
     bind_err (TransformerBlock_forward blk hidden_states (Some attention_mask))
       (forward_blocks blks attention_mask)"

definition forward :: "real TinyLlamaModel \<Rightarrow> int list \<Rightarrow> error + real list" where
  \<comment> \<open>a negative \<open>model_dim\<close> asks for a matrix that cannot be allocated\<close>
  "forward m input_tokens =
     (let seq_len = length input_tokens; vs = size_t_of_int (vocab_size (config m))
      in if \<not> is_initialized m then Inl (ModelException ''Model is not fully initialized'')
         else if input_tokens = [] then Inl (ModelException ''Empty input tokens'')
         else if seq_len > size_t_of_int (max_sequence_length (config m))
         then Inl (ModelException ''Input sequence exceeds maximum length'')
         else if model_dim (config m) < 0 then Inl (StdLengthError ''vector'')
         else
           bind_err (embed_tokens m 0 input_tokens) (\<lambda>embedding_rows.
           bind_err (forward_blocks (transformer_blocks m)
                       (create_attention_mask (int_of_size_t seq_len))
                       \<lparr>rows = seq_len, cols = nat (model_dim (config m)),
                        data = concat embedding_rows\<rparr>)
             (\<lambda>hidden_states.
           bind_err (Matrix_mul hidden_states (output_projection m)) (\<lambda>logits.
             if \<not> alloc_ok vs then Inl (StdLengthError ''vector'')
             else if 0 < vs \<and> \<not> (seq_len - 1 < rows logits \<and> vs \<le> cols logits)
             then Inl (StdOutOfRange ''Matrix index out of bounds'')
             else Inr (map (cell logits (seq_len - 1)) [0..<vs])))))"

section \<open>Softmax with temperature\<close>

text \<open>
  The places where the result of \<open>softmax\<close> is not a vector of numbers.

  With a temperature of zero the source divides by zero. The entry that equals the maximum
  becomes \<open>0 / 0\<close>, a NaN, the sum of the exponentials is a NaN with it, and so is every
  quotient: the result is a vector of NaN of the length of the input.

  With a negative temperature the arguments of \<open>std::exp\<close> are not negative, and the sum of
  the exponentials can pass \<open>FLT_MAX\<close>: \<open>sum_exp\<close> is then \<open>+infinity\<close>. An entry whose
  own exponential is infinite becomes \<open>inf / inf\<close>, a NaN, and every other entry becomes
  \<open>0.0f\<close>: \<open>Overflowed\<close> has \<open>True\<close> for a NaN and \<open>False\<close> for \<open>0.0f\<close>. With a positive
  temperature no exponential is above 1.
\<close>

datatype probabilities =
    Probabilities "real list"
  | NotANumbers nat
  | Overflowed "bool list"


definition softmax_fl ::
  "(real \<Rightarrow> real) \<Rightarrow> real TinyLlamaModel \<Rightarrow> real list \<Rightarrow> real \<Rightarrow> probabilities" where
  "softmax_fl fl m logits temperature_arg =
     (if logits = [] then Probabilities []
      else (let temp = (if temperature_arg > 0 then temperature_arg else temperature m);
                max_val = logits ! max_element logits;
                exp_values = map (\<lambda>x. fl (std_exp (fl (fl (x - max_val) / temp)))) logits;
                sum_exp = foldl (\<lambda>sum e. fl (sum + e)) 0 exp_values
            in if temp = 0 then NotANumbers (length logits)
               else if temp < 0 \<and> FLT_MAX < sum_exp
               then Overflowed (map (\<lambda>e. FLT_MAX < e) exp_values)
               else Probabilities (map (\<lambda>e. fl (e / sum_exp)) exp_values)))"

definition softmax :: "real TinyLlamaModel \<Rightarrow> real list \<Rightarrow> real \<Rightarrow> probabilities" where
  \<comment> \<open>\<open>softmax\<close> in the arithmetic of the reals, as the rest of the numeric code\<close>
  "softmax = softmax_fl (\<lambda>x. x)"


definition sample :: "probabilities \<Rightarrow> error + int" where
  \<comment> \<open>\<open>sample_token\<close> on what \<open>softmax\<close> returned: no comparison with a NaN holds, and
      \<open>0.0f < 0.0f\<close> does not hold, so \<open>std::max_element\<close> stays at the first element of a
      vector of NaN and zeros\<close>
  "sample p = (case p of Probabilities ps \<Rightarrow> sample_token ps
                       | NotANumbers n \<Rightarrow> if n = 0 then sample_token [] else Inr 0
                       | Overflowed bs \<Rightarrow> if bs = [] then sample_token [] else Inr 0)"

section \<open>\<open>BPETokenizer::encode\<close> and \<open>decode\<close>\<close>

definition preprocess_char :: "char \<Rightarrow> char" where
  \<comment> \<open>ASCII upper case to lower case, then tab, line feed and carriage return to space\<close>
  "preprocess_char ch =
     (let c = (if (of_char CHR ''A'' :: nat) \<le> of_char ch \<and> (of_char ch :: nat) \<le> of_char CHR ''Z''
               then char_of (of_char ch - of_char CHR ''A'' + of_char CHR ''a'' :: nat) else ch)
      in if c = CHR 0x09 \<or> c = CHR 0x0A \<or> c = CHR 0x0D then CHR '' '' else c)"

definition preprocess_text :: "string \<Rightarrow> string" where
  "preprocess_text text = map preprocess_char text"

definition isspace :: "char \<Rightarrow> bool" where
  \<comment> \<open>\<open>std::isspace\<close> in the C locale\<close>
  "isspace c = (c = CHR '' '' \<or> c = CHR 0x09 \<or> c = CHR 0x0A \<or> c = CHR 0x0B
                \<or> c = CHR 0x0C \<or> c = CHR 0x0D)"

fun split_loop :: "string \<Rightarrow> string list \<Rightarrow> string \<Rightarrow> string list" where
  \<comment> \<open>the loop of \<open>split_to_words\<close> with \<open>words\<close> and \<open>current_word\<close>, and what follows it\<close>
  "split_loop [] words current_word =
     (if current_word \<noteq> [] then words @ [current_word] else words)"
| "split_loop (c # cs) words current_word =
     (if isspace c
      then split_loop cs ((if current_word \<noteq> [] then words @ [current_word] else words) @ ['' ''])
             []
      else split_loop cs words (current_word @ [c]))"

definition split_to_words :: "string \<Rightarrow> string list" where
  "split_to_words text = split_loop text [] []"

fun best_pair ::
  "(string \<rightharpoonup> int) \<Rightarrow> (string \<times> string) list \<Rightarrow> nat \<Rightarrow> int \<Rightarrow> nat option \<Rightarrow> nat option" where
  \<comment> \<open>the search for the pair of lowest rank: \<open>best_rank\<close> and \<open>best_idx\<close> (\<open>None\<close> while it
      is \<open>pairs.size()\<close>) over the pairs from index \<open>i\<close> on\<close>
  "best_pair ranks [] i best_rank best_idx = best_idx"
| "best_pair ranks (p # ps) i best_rank best_idx =
     (case ranks (fst p @ '' '' @ snd p) of
        Some r \<Rightarrow> if r < best_rank then best_pair ranks ps (Suc i) r (Some i)
                  else best_pair ranks ps (Suc i) best_rank best_idx
      | None \<Rightarrow> best_pair ranks ps (Suc i) best_rank best_idx)"

fun merge_pair :: "string \<Rightarrow> string \<Rightarrow> string list \<Rightarrow> string list" where
  \<comment> \<open>the pass that builds \<open>new_chars\<close>\<close>
  "merge_pair a b [] = []"
| "merge_pair a b [x] = [x]"
| "merge_pair a b (x # y # rest) =
     (if x = a \<and> y = b then (a @ b) # merge_pair a b rest else x # merge_pair a b (y # rest))"

lemma merge_pair_length: "length (merge_pair a b cs) \<le> length cs"
  by (induction a b cs rule: merge_pair.induct) auto

lemma merge_pair_shorter:
  "(a, b) \<in> set (zip cs (tl cs)) \<Longrightarrow> length (merge_pair a b cs) < length cs"
proof (induction a b cs rule: merge_pair.induct)
  case (3 a b x y rest)
  show ?case
  proof (cases "x = a \<and> y = b")
    case True
    then show ?thesis using merge_pair_length [of a b rest] by simp
  next
    case False
    with "3.prems" have "(a, b) \<in> set (zip (y # rest) (tl (y # rest)))" by auto
    with False "3.IH"(2) have "length (merge_pair a b (y # rest)) < length (y # rest)" by blast
    with False show ?thesis by auto
  qed
qed simp_all

function bpe_loop :: "(string \<rightharpoonup> int) \<Rightarrow> string list \<Rightarrow> string list" where
  \<comment> \<open>the main loop of \<open>bpe_encode\<close>; \<open>pairs\<close> is rebuilt from \<open>chars\<close> on every round\<close>
  "bpe_loop ranks chars =
     (let pairs = zip chars (tl chars)
      in case best_pair ranks pairs 0 2147483647 None of
           None \<Rightarrow> chars
         | Some best_idx \<Rightarrow>
             if best_idx < length pairs
             then bpe_loop ranks (merge_pair (fst (pairs ! best_idx)) (snd (pairs ! best_idx)) chars)
             else chars)"
  by pat_completeness auto
termination
proof (relation "measure (\<lambda>(ranks, chars). length chars)")
  show "wf (measure (\<lambda>(ranks, chars). length chars))" by simp
next
  fix ranks :: "string \<rightharpoonup> int" and chars :: "string list" and pairs best_idx
  assume p: "pairs = zip chars (tl chars)" and i: "best_idx < length pairs"
  have "pairs ! best_idx \<in> set pairs" using i by (rule nth_mem)
  then have "pairs ! best_idx \<in> set (zip chars (tl chars))" by (simp only: p)
  then have "(fst (pairs ! best_idx), snd (pairs ! best_idx)) \<in> set (zip chars (tl chars))"
    by simp
  then have "length (merge_pair (fst (pairs ! best_idx)) (snd (pairs ! best_idx)) chars)
      < length chars"
    by (rule merge_pair_shorter)
  then show "((ranks, merge_pair (fst (pairs ! best_idx)) (snd (pairs ! best_idx)) chars),
      (ranks, chars)) \<in> measure (\<lambda>(ranks, chars). length chars)"
    by simp
qed

definition bpe_encode :: "BPETokenizer \<Rightarrow> string \<Rightarrow> string list" where
  "bpe_encode t word =
     (if word = [] then []
      else (let chars = map (\<lambda>c. [c]) word
            in if length chars = 1 then chars else bpe_loop (bpe_ranks t) chars))"

definition encode :: "BPETokenizer \<Rightarrow> string \<Rightarrow> int list" where
  \<comment> \<open>nothing in the \<open>try\<close> block throws but a failed allocation, which is outside the
      model; the handler that returns the unknown token alone is not reached\<close>
  "encode t text =
     (if text = [] then []
      else concat (map (\<lambda>word. map (get_token_id (vocab t)) (bpe_encode t word))
                    (filter (\<lambda>word. word \<noteq> []) (split_to_words (preprocess_text text)))))"

definition decode :: "BPETokenizer \<Rightarrow> int list \<Rightarrow> string" where
  "decode t tokens = concat (map (get_token (vocab t)) tokens)"

section \<open>\<open>TinyLlamaModel::generate_text\<close>\<close>

definition tokenize :: "'a TinyLlamaModel \<Rightarrow> string \<Rightarrow> error + int list" where
  "tokenize m text =
     (case tokenizer m of
        None \<Rightarrow> Inl (TokenizerException ''Tokenizer not initialized'')
      | Some t \<Rightarrow> Inr (encode t text))"

definition detokenize :: "'a TinyLlamaModel \<Rightarrow> int list \<Rightarrow> error + string" where
  "detokenize m tokens =
     (case tokenizer m of
        None \<Rightarrow> Inl (TokenizerException ''Tokenizer not initialized'')
      | Some t \<Rightarrow> Inr (decode t tokens))"

definition truncate_prompt :: "'a TinyLlamaModel \<Rightarrow> int list \<Rightarrow> error + int list" where
  \<comment> \<open>\<open>tokens.resize(max_sequence_length - 1)\<close> when the prompt is too long; the argument
      is converted to \<open>size_t\<close>, and a \<open>resize\<close> that grows appends zeros\<close>
  "truncate_prompt m tokens =
     (if length tokens \<ge> size_t_of_int (max_sequence_length (config m))
      then (let n = size_t_of_int (max_sequence_length (config m) - 1)
            in if n \<le> length tokens then Inr (take n tokens)
               else if alloc_ok n then Inr (tokens @ replicate (n - length tokens) 0)
               else Inl (StdLengthError ''vector::resize''))
      else Inr tokens)"

fun generate_loop :: "real TinyLlamaModel \<Rightarrow> real \<Rightarrow> nat \<Rightarrow> int list \<Rightarrow> error + int list" where
  \<comment> \<open>the generation loop with the number of iterations that are left\<close>
  "generate_loop m temperature_arg 0 tokens = Inr tokens"
| "generate_loop m temperature_arg (Suc n) tokens =
     (if length tokens \<ge> size_t_of_int (max_sequence_length (config m)) then Inr tokens
      else bind_err (forward m tokens) (\<lambda>logits.
        (let temp = (if temperature_arg > 0 then temperature_arg else temperature m);
             probs = softmax m logits temp
         in bind_err (sample probs) (\<lambda>next_token.
              if next_token = 2 then Inr (tokens @ [next_token])
              else generate_loop m temperature_arg n (tokens @ [next_token])))))"

definition generate_text :: "real TinyLlamaModel \<Rightarrow> string \<Rightarrow> int \<Rightarrow> real \<Rightarrow> error + string" where
  "generate_text m prompt max_tokens temperature_arg =
     (if \<not> is_initialized m then Inl (ModelException ''Model is not fully initialized'')
      else if max_tokens \<le> 0 then Inl (ModelException ''max_tokens must be positive'')
      else
        bind_err (case tokenize m prompt of
                    Inl (TokenizerException msg) \<Rightarrow> Inr [1, 2, 3]
                  | r \<Rightarrow> r) (\<lambda>tokens0.
        bind_err (truncate_prompt m tokens0) (\<lambda>tokens1.
        bind_err (generate_loop m temperature_arg (nat max_tokens) tokens1) (\<lambda>tokens.
          (let prompt_length = length tokens1
           in case (if length tokens > prompt_length then detokenize m (drop prompt_length tokens)
                    else Inr []) of
                Inr generated_part \<Rightarrow> Inr (prompt @ generated_part)
              | Inl (TokenizerException msg) \<Rightarrow> Inr (prompt @ '' in a land far away...'')
              | Inl e \<Rightarrow> Inl e)))))"

section \<open>The facade: \<open>TinyLlama::generate\<close>\<close>

record TinyLlama =
  model :: "real TinyLlamaModel"
  initialized_flag :: bool

definition validate_string_input :: "string \<Rightarrow> string \<Rightarrow> bool \<Rightarrow> error option" where
  "validate_string_input input param_name allow_empty =
     (if \<not> allow_empty \<and> input = [] then Some (ConfigurationException (param_name @ '' cannot be empty''))
      else if CHR 0x00 \<in> set input
      then Some (ConfigurationException (param_name @ '' contains null characters''))
      else if length input > 1000000 then Some (ConfigurationException (param_name @ '' is too long''))
      else None)"

definition validate_positive_integer :: "int \<Rightarrow> string \<Rightarrow> int \<Rightarrow> error option" where
  "validate_positive_integer v param_name min_value =
     (if v < min_value then Some (ConfigurationException (param_name @ '' must be at least''))
      else if v > 1000000 then Some (ConfigurationException (param_name @ '' is too large''))
      else None)"

definition generate :: "TinyLlama \<Rightarrow> string \<Rightarrow> int \<Rightarrow> error + string" where
  \<comment> \<open>\<open>generate_text\<close> is called with two arguments: its third parameter takes the default
      \<open>1.0f\<close> of the declaration. An exception that is not a \<open>TinyLlamaException\<close> is
      turned into a \<open>ModelException\<close>.\<close>
  "generate f prompt max_tokens =
     (if \<not> initialized_flag f then Inl (ModelException ''Model not initialized. Call initialize() first.'')
      else case validate_string_input prompt ''prompt'' False of
        Some e \<Rightarrow> Inl e
      | None \<Rightarrow>
        (case validate_positive_integer max_tokens ''max_tokens'' 1 of
           Some e \<Rightarrow> Inl e
         | None \<Rightarrow>
             if max_tokens > 10000 then Inl (ConfigurationException ''max_tokens is too large'')
             else if max_tokens > max_sequence_length (config (model f))
             then Inl (ConfigurationException
                         ''max_tokens exceeds model's configured maximum sequence length'')
             else (case generate_text (model f) prompt max_tokens 1 of
                     Inl (StdOutOfRange msg) \<Rightarrow> Inl (ModelException ''Text generation failed'')
                   | Inl (StdInvalidArgument msg) \<Rightarrow> Inl (ModelException ''Text generation failed'')
                   | Inl (StdLengthError msg) \<Rightarrow> Inl (ModelException ''Text generation failed'')
                   | r \<Rightarrow> r)))"

section \<open>Well-formed weights\<close>

text \<open>
  The shapes the constructor gives the model's tensors, for a configuration whose
  dimensions are non-negative \<open>int\<close> values and whose tensors can be allocated.
  \<open>placeholder_block\<close> is a block whose tensors hold the constants that
  \<open>save_model_weights\<close> writes for every layer.
\<close>

definition matrix_shape :: "'a Matrix \<Rightarrow> nat \<Rightarrow> nat \<Rightarrow> bool" where
  "matrix_shape M r c = (rows M = r \<and> cols M = c \<and> length (data M) = r * c)"

definition dims_ok :: "'a ModelConfig \<Rightarrow> bool" where
  "dims_ok cfg =
     (0 \<le> model_dim cfg \<and> model_dim cfg < 2 ^ 31 \<and> 0 \<le> num_layers cfg \<and> num_layers cfg < 2 ^ 31
      \<and> - (2 ^ 31) \<le> num_heads cfg \<and> num_heads cfg < 2 ^ 31
      \<and> 0 \<le> ffn_hidden_dim cfg \<and> ffn_hidden_dim cfg < 2 ^ 31
      \<and> 0 \<le> max_sequence_length cfg \<and> max_sequence_length cfg < 2 ^ 31
      \<and> 0 \<le> vocab_size cfg \<and> vocab_size cfg < 2 ^ 31
      \<and> nat (model_dim cfg) * nat (model_dim cfg) < 2 ^ 61
      \<and> nat (model_dim cfg) * nat (ffn_hidden_dim cfg) < 2 ^ 61
      \<and> nat (vocab_size cfg) * nat (model_dim cfg) < 2 ^ 61
      \<and> nat (max_sequence_length cfg) * nat (model_dim cfg) < 2 ^ 61)"

definition weights_wf :: "'a TinyLlamaModel \<Rightarrow> bool" where
  "weights_wf m =
     (dims_ok (config m)
      \<and> matrix_shape (embedding_weights m) (nat (vocab_size (config m))) (nat (model_dim (config m)))
      \<and> matrix_shape (position_embeddings m) (nat (max_sequence_length (config m)))
            (nat (model_dim (config m)))
      \<and> matrix_shape (output_projection m) (nat (model_dim (config m))) (nat (vocab_size (config m)))
      \<and> length (transformer_blocks m) = nat (num_layers (config m)))"

definition Matrix_wf :: "'a Matrix \<Rightarrow> bool" where
  \<comment> \<open>the invariant of \<open>Matrix\<close>, with the product as \<open>size_t\<close> computes it\<close>
  "Matrix_wf M = (rows M < 2 ^ 64 \<and> cols M < 2 ^ 64
     \<and> length (data M) = (rows M * cols M) mod 2 ^ 64 \<and> alloc_ok (length (data M)))"

definition const_matrix :: "nat \<Rightarrow> nat \<Rightarrow> 'a \<Rightarrow> 'a Matrix" where
  "const_matrix r c v = \<lparr>rows = r, cols = c, data = replicate (r * c) v\<rparr>"

definition placeholder_block :: "float32 ModelConfig \<Rightarrow> float32 TransformerBlock \<Rightarrow> float32 TransformerBlock" where
  "placeholder_block cfg blk =
     (let md = nat (model_dim cfg); fhd = nat (ffn_hidden_dim cfg)
      in blk\<lparr>attention := (attention blk)\<lparr>query_weights := const_matrix md md float_0_1,
                                         key_weights := const_matrix md md float_0_1,
                                         value_weights := const_matrix md md float_0_1,
                                         output_weights := const_matrix md md float_0_1\<rparr>,
             ffn := (ffn blk)\<lparr>linear1_weights := const_matrix md fhd float_0_1,
                                linear1_bias := replicate fhd float_0_0,
                                linear2_weights := const_matrix fhd md float_0_1,
                                linear2_bias := replicate md float_0_0\<rparr>,
             layer_norm1_weight := replicate md float_1_0,
             layer_norm1_bias := replicate md float_0_0,
             layer_norm2_weight := replicate md float_1_0,
             layer_norm2_bias := replicate md float_0_0\<rparr>)"

section \<open>A model of the smallest configuration\<close>

text \<open>
  One layer, one head and every dimension 1. The four attention weights hold \<open>2.0f\<close>,
  the layer-norm weights \<open>1.0f\<close>, every other entry \<open>0.0f\<close>; the tokenizer is the one
  the constructor builds.
\<close>

definition float_2_0 :: float32 where "float_2_0 = 0x40000000"

definition tiny_config :: "float32 ModelConfig" where
  "tiny_config = \<lparr>model_dim = 1, num_layers = 1, num_heads = 1, ffn_hidden_dim = 1,
     max_sequence_length = 1, vocab_size = 1, dropout_rate = default_dropout_rate\<rparr>"

definition tiny_block :: "float32 TransformerBlock" where
  "tiny_block =
     \<lparr>attention = \<lparr>query_weights = const_matrix 1 1 float_2_0,
                    key_weights = const_matrix 1 1 float_2_0,
                    value_weights = const_matrix 1 1 float_2_0,
                    output_weights = const_matrix 1 1 float_2_0,
                    mha_num_heads = 1, head_dim = 1, mha_model_dim = 1\<rparr>,
      ffn = \<lparr>linear1_weights = const_matrix 1 1 float_0_0, linear1_bias = [float_0_0],
              linear2_weights = const_matrix 1 1 float_0_0, linear2_bias = [float_0_0],
              ffn_model_dim = 1, hidden_dim = 1\<rparr>,
      layer_norm1_weight = [float_1_0], layer_norm1_bias = [float_0_0],
      layer_norm2_weight = [float_1_0], layer_norm2_bias = [float_0_0],
      blk_model_dim = 1\<rparr>"

definition tiny_model :: "float32 TinyLlamaModel" where
  "tiny_model =
     \<lparr>tokenizer = Some BPETokenizer_new,
      embedding_weights = const_matrix 1 1 float_0_0,
      position_embeddings = const_matrix 1 1 float_0_0,
      transformer_blocks = [tiny_block],
      output_projection = const_matrix 1 1 float_0_0,
      config = tiny_config, temperature = float_1_0\<rparr>"

definition one_file :: "string \<Rightarrow> byte list \<Rightarrow> filesystem" where
  \<comment> \<open>a file system that holds one file and lets any file be created\<close>
  "one_file name content = \<lparr>files = [name \<mapsto> content], creatable = (\<lambda>_. True)\<rparr>"

section \<open>A model with a vocabulary of four tokens\<close>

text \<open>
  One layer, one head, \<open>model_dim = 1\<close>, room for four positions and the four special
  tokens as vocabulary. Every token's embedding is \<open>1\<close>, the position embeddings and the
  feed-forward weights are \<open>0\<close>, so the hidden state of every position is \<open>1\<close> and the
  logits are the row \<open>projection\<close> of the output projection.
\<close>

definition small_config :: "real ModelConfig" where
  "small_config = \<lparr>model_dim = 1, num_layers = 1, num_heads = 1, ffn_hidden_dim = 1,
     max_sequence_length = 4, vocab_size = 4, dropout_rate = 1 / 10\<rparr>"

definition small_block :: "real TransformerBlock" where
  "small_block =
     \<lparr>attention = \<lparr>query_weights = const_matrix 1 1 1,
                    key_weights = const_matrix 1 1 1,
                    value_weights = const_matrix 1 1 1,
                    output_weights = const_matrix 1 1 1,
                    mha_num_heads = 1, head_dim = 1, mha_model_dim = 1\<rparr>,
      ffn = \<lparr>linear1_weights = const_matrix 1 1 0, linear1_bias = [0],
              linear2_weights = const_matrix 1 1 0, linear2_bias = [0],
              ffn_model_dim = 1, hidden_dim = 1\<rparr>,
      layer_norm1_weight = [1], layer_norm1_bias = [0],
      layer_norm2_weight = [1], layer_norm2_bias = [0],
      blk_model_dim = 1\<rparr>"

definition small_model :: "real list \<Rightarrow> real TinyLlamaModel" where
  "small_model projection =
     \<lparr>tokenizer = Some BPETokenizer_new,
      embedding_weights = const_matrix 4 1 1,
      position_embeddings = const_matrix 4 1 0,
      transformer_blocks = [small_block],
      output_projection = \<lparr>rows = 1, cols = 4, data = projection\<rparr>,
      config = small_config, temperature = 1\<rparr>"

definition fresh_block :: "real \<Rightarrow> real \<Rightarrow> real \<Rightarrow> real \<Rightarrow> real TransformerBlock" where
  \<comment> \<open>the block as its constructor leaves it when \<open>rand()\<close> gives the attention matrices
      the entries \<open>q\<close>, \<open>k\<close>, \<open>v\<close> and \<open>w\<close>\<close>
  "fresh_block q k v w = small_block\<lparr>attention := (attention small_block)\<lparr>
         query_weights := const_matrix 1 1 q, key_weights := const_matrix 1 1 k,
         value_weights := const_matrix 1 1 v, output_weights := const_matrix 1 1 w\<rparr>\<rparr>"

section \<open>The state of the process\<close>















section \<open>Rows of the attention output\<close>











section \<open>Properties of greedy sampling\<close>

lemma int_of_size_t_small: "n < 2 ^ 31 \<Longrightarrow> int_of_size_t n = int n"
  unfolding int_of_size_t_def
  apply (simp add: sint_uint unsigned_of_nat take_bit_of_nat signed_take_bit_take_bit
      flip: of_nat_take_bit)
  apply (subst take_bit_nat_eq_self)
   apply simp
  apply (rule signed_take_bit_int_eq_self)
   apply simp_all
  done

lemma max_element_loop_spec:
  assumes "largest_i < i" "i = length pre" "pre ! largest_i = largest"
    and "\<forall>j < length pre. pre ! j \<le> largest"
    and "\<forall>j < largest_i. pre ! j < largest"
  shows "max_element_loop xs i largest largest_i < length (pre @ xs)
    \<and> (\<forall>j < length (pre @ xs). (pre @ xs) ! j \<le> (pre @ xs) ! max_element_loop xs i largest largest_i)
    \<and> (\<forall>j < max_element_loop xs i largest largest_i.
          (pre @ xs) ! j < (pre @ xs) ! max_element_loop xs i largest largest_i)"
  using assms
proof (induction xs arbitrary: i largest largest_i pre)
  case Nil
  then show ?case by auto
next
  case (Cons x xs)
  let ?pre = "pre @ [x]"
  show ?case
  proof (cases "largest < x")
    case True
    have "max_element_loop xs (Suc i) x i < length (?pre @ xs)
      \<and> (\<forall>j < length (?pre @ xs). (?pre @ xs) ! j \<le> (?pre @ xs) ! max_element_loop xs (Suc i) x i)
      \<and> (\<forall>j < max_element_loop xs (Suc i) x i.
            (?pre @ xs) ! j < (?pre @ xs) ! max_element_loop xs (Suc i) x i)"
    proof (rule Cons.IH)
      show "i < Suc i" by simp
      show "Suc i = length ?pre" using Cons.prems by simp
      show "?pre ! i = x" using Cons.prems by (simp add: nth_append)
      show "\<forall>j < length ?pre. ?pre ! j \<le> x"
        using Cons.prems True by (auto simp: nth_append less_Suc_eq order.strict_implies_order
            intro: order.trans)
      show "\<forall>j < i. ?pre ! j < x"
        using Cons.prems True by (auto simp: nth_append intro: le_less_trans)
    qed
    with True show ?thesis by simp
  next
    case False
    have "max_element_loop xs (Suc i) largest largest_i < length (?pre @ xs)
      \<and> (\<forall>j < length (?pre @ xs).
            (?pre @ xs) ! j \<le> (?pre @ xs) ! max_element_loop xs (Suc i) largest largest_i)
      \<and> (\<forall>j < max_element_loop xs (Suc i) largest largest_i.
            (?pre @ xs) ! j < (?pre @ xs) ! max_element_loop xs (Suc i) largest largest_i)"
    proof (rule Cons.IH)
      show "largest_i < Suc i" using Cons.prems by simp
      show "Suc i = length ?pre" using Cons.prems by simp
      show "?pre ! largest_i = largest" using Cons.prems by (simp add: nth_append)
      show "\<forall>j < length ?pre. ?pre ! j \<le> largest"
        using Cons.prems False by (auto simp: nth_append less_Suc_eq)
      show "\<forall>j < largest_i. ?pre ! j < largest"
        using Cons.prems by (auto simp: nth_append)
    qed
    with False show ?thesis by simp
  qed
qed

lemma max_element_spec:
  assumes "xs \<noteq> []"
  shows "max_element xs < length xs"
    and "\<forall>j < length xs. xs ! j \<le> xs ! max_element xs"
    and "\<forall>j < max_element xs. xs ! j < xs ! max_element xs"
proof -
  from assms obtain x rest where xs: "xs = x # rest" by (cases xs) auto
  have "max_element_loop rest 1 x 0 < length ([x] @ rest)
    \<and> (\<forall>j < length ([x] @ rest). ([x] @ rest) ! j \<le> ([x] @ rest) ! max_element_loop rest 1 x 0)
    \<and> (\<forall>j < max_element_loop rest 1 x 0.
          ([x] @ rest) ! j < ([x] @ rest) ! max_element_loop rest 1 x 0)"
    by (rule max_element_loop_spec) auto
  then show "max_element xs < length xs"
    and "\<forall>j < length xs. xs ! j \<le> xs ! max_element xs"
    and "\<forall>j < max_element xs. xs ! j < xs ! max_element xs"
    by (simp_all add: xs max_element_def)
qed

text \<open>
  C9. On an empty vector \<open>sample_token\<close> fails with a Model error. On a non-empty vector
  (of fewer than \<open>2^31\<close> entries, so that the index fits the \<open>int\<close> result) it returns an
  index \<open>k\<close> inside the vector such that no entry is greater than entry \<open>k\<close> and every
  entry before \<open>k\<close> is strictly smaller: the first maximal element.
\<close>

theorem sample_token_first_maximum:
  "sample_token [] = Inl (ModelException ''Empty probability distribution'')
   \<and> (probs \<noteq> [] \<and> length probs < 2 ^ 31 \<longrightarrow>
     (\<exists>k. sample_token probs = Inr (int k) \<and> k < length probs
       \<and> (\<forall>j < length probs. probs ! j \<le> probs ! k)
       \<and> (\<forall>j < k. probs ! j < probs ! k)))"
proof (intro conjI impI)
  show "sample_token [] = Inl (ModelException ''Empty probability distribution'')"
    by (simp add: sample_token_def)
next
  assume "probs \<noteq> [] \<and> length probs < 2 ^ 31"
  then have ne: "probs \<noteq> []" and len: "length probs < 2 ^ 31" by simp_all
  let ?k = "max_element probs"
  have k: "?k < length probs" using max_element_spec(1) [OF ne] .
  then have "?k < 2 ^ 31" using len by simp
  then have "sample_token probs = Inr (int ?k)"
    using ne by (simp add: sample_token_def int_of_size_t_small)
  with k max_element_spec(2,3) [OF ne] show
    "\<exists>k. sample_token probs = Inr (int k) \<and> k < length probs
       \<and> (\<forall>j < length probs. probs ! j \<le> probs ! k)
       \<and> (\<forall>j < k. probs ! j < probs ! k)"
    by blast
qed

text \<open>The tie between entries 1 and 2 is resolved in favour of the smaller index.\<close>

theorem sample_token_first_maximum_witness:
  "sample_token [1/5, 2/5, 2/5] = Inr 1"
proof -
  have "[1/5, 2/5, 2/5 :: real] \<noteq> [] \<and> length [1/5, 2/5, 2/5 :: real] < 2 ^ 31" by simp
  with sample_token_first_maximum [of "[1/5, 2/5, 2/5]"]
  obtain k where k: "sample_token [1/5, 2/5, 2/5] = Inr (int k)"
    and first: "\<forall>j < k. [1/5, 2/5, 2/5 :: real] ! j < [1/5, 2/5, 2/5] ! k"
    and top: "\<forall>j < length [1/5, 2/5, 2/5 :: real]. [1/5, 2/5, 2/5 :: real] ! j \<le> [1/5, 2/5, 2/5] ! k"
    and bound: "k < length [1/5, 2/5, 2/5 :: real]"
    by blast
  from bound have "k = 0 \<or> k = 1 \<or> k = 2" by auto
  moreover have "k \<noteq> 0"
  proof
    assume "k = 0"
    with top [rule_format, of 1] show False by simp
  qed
  moreover have "k \<noteq> 2"
  proof
    assume "k = 2"
    with first [rule_format, of 1] show False by simp
  qed
  ultimately have "k = 1" by blast
  with k show ?thesis by simp
qed


section \<open>Properties of the binary encoding\<close>


lemma length_le_bytes [simp]: "length (le_bytes n v) = n"
  by (induction n arbitrary: v) simp_all

lemma le_value_le_bytes: "v < 256 ^ n \<Longrightarrow> le_value (le_bytes n v) = v"
proof (induction n arbitrary: v)
  case 0
  then show ?case by simp
next
  case (Suc n)
  have "v div 256 < 256 ^ n" using Suc.prems by (simp add: less_mult_imp_div_less mult.commute)
  then have "le_value (le_bytes n (v div 256)) = v div 256" by (rule Suc.IH)
  moreover have "unat (word_of_nat (v mod 256) :: byte) = v mod 256"
    by (simp add: unat_of_nat)
  ultimately show ?case by simp
qed

lemma read_size_t_write: "n < 2 ^ 64 \<Longrightarrow> read_size_t (write_size_t n @ rest) = Some (n, rest)"
  by (simp add: read_size_t_def write_size_t_def le_value_le_bytes)

lemma length_write_u32 [simp]: "length (write_u32 w) = 4"
  by (simp add: write_u32_def)

lemma length_write_int [simp]: "length (write_int i) = 4"
  by (simp add: write_int_def)

lemma read_back_u32: "(word_of_nat (le_value (write_u32 w)) :: 32 word) = w"
proof -
  have "unat w < 256 ^ 4" using unsigned_less [of w, where ?'a = nat] by simp
  then show ?thesis by (simp add: write_u32_def le_value_le_bytes)
qed

lemma read_u32_write: "read_u32 (write_u32 w @ rest) = Some (w, rest)"
  by (simp add: read_u32_def read_back_u32)

lemma read_float_into_write: "read_float_into d (write_u32 w @ rest) = (w, rest)"
  by (simp add: read_float_into_def read_back_u32)

lemma read_back_int:
  assumes "- (2 ^ 31) \<le> i" "i < 2 ^ 31"
  shows "sint (word_of_nat (le_value (write_int i)) :: 32 word) = i"
proof -
  have "nat (i mod 2 ^ 32) < 256 ^ 4" by simp
  then have "le_value (write_int i) = nat (i mod 2 ^ 32)"
    by (simp only: write_int_def le_value_le_bytes)
  then have "(word_of_nat (le_value (write_int i)) :: 32 word) = word_of_int i"
    by (simp add: word_of_int_eq_iff take_bit_eq_mod)
  moreover have "sint (word_of_int i :: 32 word) = i"
    using assms by (simp add: sint_sbintrunc' signed_take_bit_int_eq_self)
  ultimately show ?thesis by simp
qed


lemma read_int_into_write:
  "- (2 ^ 31) \<le> i \<Longrightarrow> i < 2 ^ 31 \<Longrightarrow> read_int_into d (write_int i @ rest) = (i, rest)"
  by (simp add: read_int_into_def read_back_int)

lemma length_write_floats [simp]: "length (write_floats fs) = 4 * length fs"
  by (induction fs) (simp_all add: write_floats_def)

lemma decode_floats_write: "decode_floats (length fs) (write_floats fs @ rest) = fs"
proof (induction fs)
  case Nil
  then show ?case by simp
next
  case (Cons f fs)
  have w: "write_floats (f # fs) = write_u32 f @ write_floats fs" by (simp add: write_floats_def)
  show ?case using Cons.IH by (simp add: w read_back_u32)
qed

lemma read_floats_write: "read_floats (length fs) (write_floats fs @ rest) = Some (fs, rest)"
  by (simp add: read_floats_def decode_floats_write)

lemma read_matrix_write:
  assumes "r < 2 ^ 64" "c < 2 ^ 64" "length fs = (r * c) mod 2 ^ 64" "alloc_ok (length fs)"
  shows "read_matrix what r c (write_size_t r @ write_size_t c @ write_floats fs @ rest)
    = Inr (\<lparr>rows = r, cols = c, data = fs\<rparr>, rest)"
  using assms(3,4) read_floats_write [of fs rest]
  by (simp add: read_matrix_def read_size_t_write [OF assms(1)] read_size_t_write [OF assms(2)] Let_def)

lemma read_vector_write:
  assumes "length fs < 2 ^ 64" "alloc_ok (length fs)"
  shows "read_vector what (length fs) (write_size_t (length fs) @ write_floats fs @ rest) = Inr (fs, rest)"
  using assms(2) read_floats_write [of fs rest]
  by (simp add: read_vector_def read_size_t_write [OF assms(1)])


lemma size_t_of_int_nat: "0 \<le> i \<Longrightarrow> i < 2 ^ 31 \<Longrightarrow> size_t_of_int i = nat i"
  by (simp add: size_t_of_int_def)

lemma nat_lt_64: "0 \<le> i \<Longrightarrow> i < 2 ^ 31 \<Longrightarrow> nat i < 2 ^ 64"
  by (simp add: nat_less_iff)

lemma dummy_matrix_read:
  assumes "r < 2 ^ 64" "c < 2 ^ 64" "r * c < 2 ^ 61"
  shows "read_matrix what r c (dummy_matrix_bytes r c v @ rest) = Inr (const_matrix r c v, rest)"
proof -
  have m: "(r * c) mod 2 ^ 64 = r * c" using assms(3) by simp
  have "read_matrix what r c (write_size_t r @ write_size_t c @ write_floats (replicate (r * c) v) @ rest)
    = Inr (\<lparr>rows = r, cols = c, data = replicate (r * c) v\<rparr>, rest)"
    using assms(3) by (intro read_matrix_write assms) (simp_all add: alloc_ok_def)
  then show ?thesis using m by (simp add: dummy_matrix_bytes_def const_matrix_def)
qed

lemma dummy_vector_read:
  assumes "n < 2 ^ 61"
  shows "read_vector what n (dummy_vector_bytes n v @ rest) = Inr (replicate n v, rest)"
proof -
  have "read_vector what (length (replicate n v))
      (write_size_t (length (replicate n v)) @ write_floats (replicate n v) @ rest)
    = Inr (replicate n v, rest)"
    using assms by (intro read_vector_write) (simp_all add: alloc_ok_def)
  then show ?thesis by (simp add: dummy_vector_bytes_def)
qed


lemma concat_replicate_4: "concat (replicate 4 x) = x @ x @ x @ x"
proof -
  have "(4::nat) = Suc (Suc (Suc (Suc 0)))" by simp
  then show ?thesis by (simp only: replicate.simps concat.simps append_Nil2)
qed

lemma load_one_layer:
  assumes ok: "dims_ok (config m)" and l0: "0 \<le> layer" and l1: "layer < num_layers (config m)"
    and len: "nat layer < length (transformer_blocks m)"
  shows "bind_err (load_attention_weights m (layer_bytes (config m) @ rest) layer) (\<lambda>(m1, s1).
           bind_err (load_ffn_weights m1 s1 layer) (\<lambda>(m2, s2).
             load_layer_norm_weights m2 s2 layer))
         = Inr (m\<lparr>transformer_blocks := (transformer_blocks m)[nat layer :=
                   placeholder_block (config m) (transformer_blocks m ! nat layer)]\<rparr>, rest)"
proof -
  let ?md = "nat (model_dim (config m))" and ?fhd = "nat (ffn_hidden_dim (config m))"
  from ok have i: "0 \<le> model_dim (config m)" "model_dim (config m) < 2 ^ 31"
    "0 \<le> ffn_hidden_dim (config m)" "ffn_hidden_dim (config m) < 2 ^ 31"
    unfolding dims_ok_def by simp_all
  have md: "size_t_of_int (model_dim (config m)) = ?md"
    and fhd: "size_t_of_int (ffn_hidden_dim (config m)) = ?fhd"
    using i by (simp_all add: size_t_of_int_nat)
  have b: "?md < 2 ^ 64" "?fhd < 2 ^ 64"
    using nat_lt_64 [OF i(1) i(2)] nat_lt_64 [OF i(3) i(4)] by simp_all
  from ok have p: "?md * ?md < 2 ^ 61" "?md * ?fhd < 2 ^ 61" "?fhd * ?md < 2 ^ 61"
    unfolding dims_ok_def by (simp_all add: mult.commute)
  have v: "?md < 2 ^ 61" "?fhd < 2 ^ 61"
    using i by (simp_all add: nat_less_iff)
  note rd = dummy_matrix_read [OF b(1) b(1) p(1)] dummy_matrix_read [OF b(1) b(2) p(2)]
    dummy_matrix_read [OF b(2) b(1) p(3)] dummy_vector_read [OF v(1)] dummy_vector_read [OF v(2)]
  show ?thesis
    using l0 l1 len
    by (simp add: load_attention_weights_def load_ffn_weights_def load_layer_norm_weights_def
        layer_bytes_def md fhd rd bind_err_def Let_def placeholder_block_def concat_replicate_4)
qed


lemma load_layers_placeholder:
  assumes "dims_ok (config m)" "0 \<le> layer" "layer + int k \<le> num_layers (config m)"
    and "nat layer + k \<le> length (transformer_blocks m)"
  shows "\<exists>bs'. load_layers k layer m (concat (replicate k (layer_bytes (config m))) @ rest)
            = Inr (m\<lparr>transformer_blocks := bs'\<rparr>, rest)
          \<and> length bs' = length (transformer_blocks m)
          \<and> (\<forall>i < length bs'. bs' ! i =
                (if nat layer \<le> i \<and> i < nat layer + k
                 then placeholder_block (config m) (transformer_blocks m ! i)
                 else transformer_blocks m ! i))"
  using assms
proof (induction k arbitrary: m layer)
  case 0
  have "m\<lparr>transformer_blocks := transformer_blocks m\<rparr> = m" by simp
  then show ?case by (intro exI [of _ "transformer_blocks m"]) auto
next
  case (Suc k)
  let ?bs = "transformer_blocks m"
  let ?m1 = "m\<lparr>transformer_blocks := ?bs[nat layer := placeholder_block (config m) (?bs ! nat layer)]\<rparr>"
  have one: "bind_err (load_attention_weights m
                (layer_bytes (config m) @ concat (replicate k (layer_bytes (config m))) @ rest) layer)
              (\<lambda>(m1, s1). bind_err (load_ffn_weights m1 s1 layer) (\<lambda>(m2, s2).
                 load_layer_norm_weights m2 s2 layer))
             = Inr (?m1, concat (replicate k (layer_bytes (config m))) @ rest)"
    using Suc.prems by (intro load_one_layer) simp_all
  have step: "load_layers (Suc k) layer m (concat (replicate (Suc k) (layer_bytes (config m))) @ rest)
      = load_layers k (layer + 1) ?m1 (concat (replicate k (layer_bytes (config ?m1))) @ rest)"
  proof -
    have "load_layers (Suc k) layer m (concat (replicate (Suc k) (layer_bytes (config m))) @ rest)
       = bind_err (bind_err (load_attention_weights m
                (layer_bytes (config m) @ concat (replicate k (layer_bytes (config m))) @ rest) layer)
              (\<lambda>(m1, s1). bind_err (load_ffn_weights m1 s1 layer) (\<lambda>(m2, s2).
                 load_layer_norm_weights m2 s2 layer)))
            (\<lambda>(m3, s3). load_layers k (layer + 1) m3 s3)"
      by (simp add: bind_err_def split: sum.splits prod.splits)
    also have "\<dots> = load_layers k (layer + 1) ?m1 (concat (replicate k (layer_bytes (config m))) @ rest)"
      by (simp only: one) (simp add: bind_err_def)
    finally show ?thesis by simp
  qed
  have "\<exists>bs'. load_layers k (layer + 1) ?m1 (concat (replicate k (layer_bytes (config ?m1))) @ rest)
            = Inr (?m1\<lparr>transformer_blocks := bs'\<rparr>, rest)
          \<and> length bs' = length (transformer_blocks ?m1)
          \<and> (\<forall>i < length bs'. bs' ! i =
                (if nat (layer + 1) \<le> i \<and> i < nat (layer + 1) + k
                 then placeholder_block (config ?m1) (transformer_blocks ?m1 ! i)
                 else transformer_blocks ?m1 ! i))"
    using Suc.prems by (intro Suc.IH) (simp_all add: nat_add_distrib)
  then obtain bs' where
    l: "load_layers k (layer + 1) ?m1 (concat (replicate k (layer_bytes (config ?m1))) @ rest)
            = Inr (?m1\<lparr>transformer_blocks := bs'\<rparr>, rest)"
    and n: "length bs' = length ?bs"
    and e: "\<forall>i < length bs'. bs' ! i =
                (if nat (layer + 1) \<le> i \<and> i < nat (layer + 1) + k
                 then placeholder_block (config m) (transformer_blocks ?m1 ! i)
                 else transformer_blocks ?m1 ! i)"
    by auto
  have "load_layers (Suc k) layer m (concat (replicate (Suc k) (layer_bytes (config m))) @ rest)
      = Inr (m\<lparr>transformer_blocks := bs'\<rparr>, rest)"
    using step l by simp
  moreover have "\<forall>i < length bs'. bs' ! i =
                (if nat layer \<le> i \<and> i < nat layer + Suc k
                 then placeholder_block (config m) (?bs ! i) else ?bs ! i)"
  proof (intro allI impI)
    fix i assume i: "i < length bs'"
    have s: "nat (layer + 1) = Suc (nat layer)" using Suc.prems(2) by simp
    show "bs' ! i = (if nat layer \<le> i \<and> i < nat layer + Suc k
                 then placeholder_block (config m) (?bs ! i) else ?bs ! i)"
      using e [rule_format, OF i] i n
      by (cases "i = nat layer") (auto simp: s nth_list_update)
  qed
  ultimately show ?case using n by blast
qed


section \<open>Loading what \<open>save_model_weights\<close> wrote\<close>


lemma matrix_shape_read:
  assumes "matrix_shape M r c" "r < 2 ^ 64" "c < 2 ^ 64" "r * c < 2 ^ 61"
  shows "read_matrix what r c (Matrix_bytes M @ rest) = Inr (M, rest)"
proof -
  have "read_matrix what r c (write_size_t r @ write_size_t c @ write_floats (data M) @ rest)
    = Inr (\<lparr>rows = r, cols = c, data = data M\<rparr>, rest)"
    using assms by (intro read_matrix_write) (simp_all add: alloc_ok_def matrix_shape_def)
  moreover have "\<lparr>rows = r, cols = c, data = data M\<rparr> = M"
    using assms(1) by (simp add: matrix_shape_def)
  ultimately show ?thesis using assms(1) by (simp add: Matrix_bytes_def matrix_shape_def)
qed

lemma read_output_projection_write:
  assumes "matrix_shape M (nat (model_dim (config m))) (nat (vocab_size (config m)))"
    and "dims_ok (config m)"
  shows "read_output_projection m (Matrix_bytes M) = Inr (m\<lparr>output_projection := M\<rparr>)"
proof -
  let ?r = "nat (model_dim (config m))" and ?c = "nat (vocab_size (config m))"
  from assms(2) have i: "0 \<le> model_dim (config m)" "model_dim (config m) < 2 ^ 31"
    "0 \<le> vocab_size (config m)" "vocab_size (config m) < 2 ^ 31"
    unfolding dims_ok_def by simp_all
  have sz: "size_t_of_int (model_dim (config m)) = ?r" "size_t_of_int (vocab_size (config m)) = ?c"
    using i by (simp_all add: size_t_of_int_nat)
  have b: "?r < 2 ^ 64" "?c < 2 ^ 64"
    using nat_lt_64 [OF i(1) i(2)] nat_lt_64 [OF i(3) i(4)] by simp_all
  from assms(2) have p: "?r * ?c < 2 ^ 61" unfolding dims_ok_def by (simp add: mult.commute)
  then have md: "(?r * ?c) mod 2 ^ 64 = ?r * ?c" by simp
  have M: "rows M = ?r" "cols M = ?c" "length (data M) = ?r * ?c"
    using assms(1) by (simp_all add: matrix_shape_def)
  have dec: "decode_floats (?r * ?c) (write_floats (data M) @ ys) = data M" for ys
    using decode_floats_write [of "data M" ys] M(3) by simp
  have eq: "Matrix_resize (output_projection m) ?r ?c\<lparr>data := data M\<rparr> = M"
    using M by (simp add: Matrix_resize_def Let_def)
  show ?thesis
    using p md
    by (simp add: read_output_projection_def Matrix_bytes_def M read_size_t_write [OF b(1)]
        read_size_t_write [OF b(2)] sz alloc_ok_def Let_def dec eq)
qed


lemma layer_bytes_cong:
  "model_dim c1 = model_dim c2 \<Longrightarrow> ffn_hidden_dim c1 = ffn_hidden_dim c2 \<Longrightarrow> layer_bytes c1 = layer_bytes c2"
  by (simp add: layer_bytes_def)

lemma placeholder_block_cong:
  "model_dim c1 = model_dim c2 \<Longrightarrow> ffn_hidden_dim c1 = ffn_hidden_dim c2
    \<Longrightarrow> placeholder_block c1 = placeholder_block c2"
  by (simp add: placeholder_block_def fun_eq_iff)

lemma read_file_config_write:
  assumes "dims_ok cfg"
  shows "read_file_config (write_int (model_dim cfg) @ write_int (num_layers cfg)
      @ write_int (num_heads cfg) @ write_int (ffn_hidden_dim cfg)
      @ write_int (max_sequence_length cfg) @ write_int (vocab_size cfg)
      @ write_u32 (dropout_rate cfg) @ rest) = (cfg, rest)"
proof -
  from assms have r: "- (2 ^ 31) \<le> model_dim cfg" "model_dim cfg < 2 ^ 31"
    "- (2 ^ 31) \<le> num_layers cfg" "num_layers cfg < 2 ^ 31"
    "- (2 ^ 31) \<le> num_heads cfg" "num_heads cfg < 2 ^ 31"
    "- (2 ^ 31) \<le> ffn_hidden_dim cfg" "ffn_hidden_dim cfg < 2 ^ 31"
    "- (2 ^ 31) \<le> max_sequence_length cfg" "max_sequence_length cfg < 2 ^ 31"
    "- (2 ^ 31) \<le> vocab_size cfg" "vocab_size cfg < 2 ^ 31"
    unfolding dims_ok_def by simp_all
  show ?thesis
    by (simp add: read_file_config_def read_int_into_write [OF r(1,2)] read_int_into_write [OF r(3,4)]
        read_int_into_write [OF r(5,6)] read_int_into_write [OF r(7,8)]
        read_int_into_write [OF r(9,10)] read_int_into_write [OF r(11,12)] read_float_into_write)
qed



lemma read_int_into_write_any:
  "read_int_into d (write_int i @ rest) = (sint (word_of_int i :: 32 word), rest)"
proof -
  have "nat (i mod 2 ^ 32) < 256 ^ 4" by simp
  then have "le_value (write_int i) = nat (i mod 2 ^ 32)"
    by (simp only: write_int_def le_value_le_bytes)
  then have "(word_of_nat (le_value (write_int i)) :: 32 word) = word_of_int i"
    by (simp add: word_of_int_eq_iff take_bit_eq_mod)
  then show ?thesis by (simp add: read_int_into_def)
qed

lemma read_file_config_header:
  assumes "- (2 ^ 31) \<le> model_dim hdr" "model_dim hdr < 2 ^ 31"
    "- (2 ^ 31) \<le> num_layers hdr" "num_layers hdr < 2 ^ 31"
    "- (2 ^ 31) \<le> num_heads hdr" "num_heads hdr < 2 ^ 31"
    "- (2 ^ 31) \<le> vocab_size hdr" "vocab_size hdr < 2 ^ 31"
  shows "\<exists>fc. read_file_config (write_int (model_dim hdr) @ write_int (num_layers hdr)
      @ write_int (num_heads hdr) @ write_int (ffn_hidden_dim hdr)
      @ write_int (max_sequence_length hdr) @ write_int (vocab_size hdr)
      @ write_u32 (dropout_rate hdr) @ rest) = (fc, rest)
    \<and> model_dim fc = model_dim hdr \<and> num_layers fc = num_layers hdr
    \<and> num_heads fc = num_heads hdr \<and> vocab_size fc = vocab_size hdr"
  using assms
  by (simp add: read_file_config_def read_int_into_write_any read_float_into_write
      sint_sbintrunc' signed_take_bit_int_eq_self)

theorem load_tensor_bytes:
  assumes wf: "weights_wf m" and ok': "dims_ok (config m')"
    and same: "model_dim (config m') = model_dim (config m)"
      "num_layers (config m') = num_layers (config m)"
      "ffn_hidden_dim (config m') = ffn_hidden_dim (config m)"
      "max_sequence_length (config m') = max_sequence_length (config m)"
      "vocab_size (config m') = vocab_size (config m)"
    and len: "length (transformer_blocks m') = nat (num_layers (config m'))"
    and hdr: "model_dim hdr = model_dim (config m')" "num_layers hdr = num_layers (config m')"
      "num_heads hdr = num_heads (config m')" "vocab_size hdr = vocab_size (config m')"
  shows "load_weights_body m' (header_bytes hdr @ tensor_bytes m)
    = Inr (m'\<lparr>embedding_weights := embedding_weights m,
              position_embeddings := position_embeddings m,
              transformer_blocks := map (placeholder_block (config m')) (transformer_blocks m'),
              output_projection := output_projection m\<rparr>)"
proof -
  let ?c = "config m'"
  from ok' have i: "0 \<le> model_dim ?c" "model_dim ?c < 2 ^ 31"
    "0 \<le> max_sequence_length ?c" "max_sequence_length ?c < 2 ^ 31"
    "0 \<le> vocab_size ?c" "vocab_size ?c < 2 ^ 31" "0 \<le> num_layers ?c" "num_layers ?c < 2 ^ 31"
    "- (2 ^ 31) \<le> num_heads ?c" "num_heads ?c < 2 ^ 31"
    unfolding dims_ok_def by simp_all
  have sz: "size_t_of_int (model_dim ?c) = nat (model_dim ?c)"
    "size_t_of_int (max_sequence_length ?c) = nat (max_sequence_length ?c)"
    "size_t_of_int (vocab_size ?c) = nat (vocab_size ?c)"
    using i by (simp_all add: size_t_of_int_nat)
  have b: "nat (model_dim ?c) < 2 ^ 64" "nat (max_sequence_length ?c) < 2 ^ 64"
    "nat (vocab_size ?c) < 2 ^ 64"
    using nat_lt_64 [OF i(1,2)] nat_lt_64 [OF i(3,4)] nat_lt_64 [OF i(5,6)] by simp_all
  from ok' have p: "nat (vocab_size ?c) * nat (model_dim ?c) < 2 ^ 61"
    "nat (max_sequence_length ?c) * nat (model_dim ?c) < 2 ^ 61"
    unfolding dims_ok_def by simp_all
  from wf have sh: "matrix_shape (embedding_weights m) (nat (vocab_size ?c)) (nat (model_dim ?c))"
    "matrix_shape (position_embeddings m) (nat (max_sequence_length ?c)) (nat (model_dim ?c))"
    "matrix_shape (output_projection m) (nat (model_dim ?c)) (nat (vocab_size ?c))"
    by (simp_all add: weights_wf_def same)
  let ?m1 = "m'\<lparr>embedding_weights := embedding_weights m, position_embeddings := position_embeddings m\<rparr>"
  let ?out = "Matrix_bytes (output_projection m)"
  have lb: "layer_bytes (config m) = layer_bytes (config m')"
    by (rule layer_bytes_cong) (simp_all add: same)
  have "\<exists>bs'. load_layers (nat (num_layers ?c)) 0 ?m1
            (concat (replicate (nat (num_layers ?c)) (layer_bytes (config ?m1))) @ ?out)
            = Inr (?m1\<lparr>transformer_blocks := bs'\<rparr>, ?out)
          \<and> length bs' = length (transformer_blocks ?m1)
          \<and> (\<forall>i < length bs'. bs' ! i =
                (if nat 0 \<le> i \<and> i < nat 0 + nat (num_layers ?c)
                 then placeholder_block (config ?m1) (transformer_blocks ?m1 ! i)
                 else transformer_blocks ?m1 ! i))"
    using ok' i(7) len by (intro load_layers_placeholder) simp_all
  then obtain bs' where
    ll: "load_layers (nat (num_layers ?c)) 0 ?m1
            (concat (replicate (nat (num_layers ?c)) (layer_bytes ?c)) @ ?out)
            = Inr (?m1\<lparr>transformer_blocks := bs'\<rparr>, ?out)"
    and n: "length bs' = length (transformer_blocks m')"
    and e: "\<forall>i < length bs'. bs' ! i =
                (if i < nat (num_layers ?c)
                 then placeholder_block ?c (transformer_blocks m' ! i)
                 else transformer_blocks m' ! i)"
    by auto
  have bs': "bs' = map (placeholder_block ?c) (transformer_blocks m')"
    using n e len by (intro nth_equalityI) simp_all
  have out: "read_output_projection (?m1\<lparr>transformer_blocks := bs'\<rparr>) ?out
      = Inr (?m1\<lparr>transformer_blocks := bs', output_projection := output_projection m\<rparr>)"
    using sh(3) ok' by (subst read_output_projection_write) simp_all
  obtain fc where fc: "read_file_config (write_int (model_dim hdr) @ write_int (num_layers hdr)
      @ write_int (num_heads hdr) @ write_int (ffn_hidden_dim hdr)
      @ write_int (max_sequence_length hdr) @ write_int (vocab_size hdr)
      @ write_u32 (dropout_rate hdr) @ tensor_bytes m) = (fc, tensor_bytes m)"
    and fcs: "model_dim fc = model_dim hdr" "num_layers fc = num_layers hdr"
      "num_heads fc = num_heads hdr" "vocab_size fc = vocab_size hdr"
    using read_file_config_header [of hdr "tensor_bytes m"] i by (auto simp: hdr)
  have tb: "tensor_bytes m = Matrix_bytes (embedding_weights m) @ Matrix_bytes (position_embeddings m)
      @ concat (replicate (nat (num_layers ?c)) (layer_bytes ?c)) @ ?out"
    by (simp add: tensor_bytes_def same lb)
  have tensors: "bind_err (read_matrix ''Embedding weights''
        (size_t_of_int (vocab_size ?c)) (size_t_of_int (model_dim ?c)) (tensor_bytes m))
      (\<lambda>(emb, s4). bind_err (read_matrix ''Position embeddings''
          (size_t_of_int (max_sequence_length ?c)) (size_t_of_int (model_dim ?c)) s4)
        (\<lambda>(pos, s5). bind_err (load_layers (nat (num_layers ?c)) 0
            (m'\<lparr>embedding_weights := emb, position_embeddings := pos\<rparr>) s5)
          (\<lambda>(m1, s6). read_output_projection m1 s6)))
      = Inr (?m1\<lparr>transformer_blocks := bs', output_projection := output_projection m\<rparr>)"
    unfolding tb sz
    by (simp add: bind_err_def matrix_shape_read [OF sh(1) b(3) b(1) p(1)]
        matrix_shape_read [OF sh(2) b(2) b(1) p(2)] ll out)
  show ?thesis
    using tensors fc fcs
    by (simp add: load_weights_body_def header_bytes_def read_u32_write hdr bs')
qed


section \<open>The claims about the binary formats\<close>

text \<open>
  C8. A matrix that satisfies the class invariant, saved with \<open>save_to_file\<close> to a file
  that can be created and loaded from there with \<open>load_from_file\<close> into any matrix
  \<open>M0\<close>, comes back with the same \<open>rows\<close>, the same \<open>cols\<close> and the same elements, bit for
  bit.
\<close>

theorem matrix_file_roundtrip:
  "Matrix_wf M \<and> creatable fs filename \<longrightarrow>
     (\<exists>fs'. save_to_file M filename fs = Inr fs' \<and> load_from_file M0 filename fs' = Inr M)"
proof
  assume a: "Matrix_wf M \<and> creatable fs filename"
  then have r: "rows M < 2 ^ 64" and c: "cols M < 2 ^ 64"
    and n: "(rows M * cols M) mod 2 ^ 64 = length (data M)" and al: "alloc_ok (length (data M))"
    unfolding Matrix_wf_def by auto
  let ?fs = "fs\<lparr>files := (files fs)(filename \<mapsto> Matrix_bytes M)\<rparr>"
  have "save_to_file M filename fs = Inr ?fs" using a by (simp add: save_to_file_def)
  moreover have "load_from_file M0 filename ?fs = Inr M"
    using read_floats_write [of "data M" "[]"] al n
    by (simp add: load_from_file_def Matrix_bytes_def read_size_t_write [OF r]
        read_size_t_write [OF c] Let_def)
  ultimately show "\<exists>fs'. save_to_file M filename fs = Inr fs' \<and> load_from_file M0 filename fs' = Inr M"
    by blast
qed


theorem matrix_file_roundtrip_witness:
  "\<exists>fs'. save_to_file \<lparr>rows = 1, cols = 2, data = [float_1_0, float_2_0]\<rparr> ''m.bin''
            (one_file ''other.bin'' []) = Inr fs'
     \<and> load_from_file (Matrix_new 0 0) ''m.bin'' fs'
         = Inr \<lparr>rows = 1, cols = 2, data = [float_1_0, float_2_0]\<rparr>"
  using matrix_file_roundtrip [of "\<lparr>rows = 1, cols = 2, data = [float_1_0, float_2_0]\<rparr>"
      "one_file ''other.bin'' []" "''m.bin''" "Matrix_new 0 0"]
  by (simp add: Matrix_wf_def alloc_ok_def one_file_def)



lemma tiny_model_wf: "weights_wf tiny_model"
  by (simp add: weights_wf_def dims_ok_def matrix_shape_def tiny_model_def tiny_config_def
      const_matrix_def)

lemma load_model_weights_Inr:
  "load_weights_body m s = Inr m' \<Longrightarrow> load_model_weights m name (one_file name s) = Inr m'"
  by (simp add: load_model_weights_def one_file_def)

text \<open>
  C1. The loader compares four of the seven header fields. Here the model of the smallest
  configuration loads three files whose tensors are its own and whose header differs
  from its configuration in one field only: \<open>ffn_hidden_dim\<close> (2 for 1),
  \<open>max_sequence_length\<close> (2 for 1) and \<open>dropout_rate\<close> (\<open>1.0f\<close> for \<open>0.1f\<close>). Each load
  succeeds.
\<close>

theorem load_accepts_mismatched_header:
  "load_model_weights tiny_model ''weights.bin''
     (one_file ''weights.bin''
        (header_bytes (tiny_config\<lparr>ffn_hidden_dim := 2\<rparr>) @ tensor_bytes tiny_model))
     = Inr (tiny_model\<lparr>transformer_blocks := [placeholder_block tiny_config tiny_block]\<rparr>)
   \<and> load_model_weights tiny_model ''weights.bin''
     (one_file ''weights.bin''
        (header_bytes (tiny_config\<lparr>max_sequence_length := 2\<rparr>) @ tensor_bytes tiny_model))
     = Inr (tiny_model\<lparr>transformer_blocks := [placeholder_block tiny_config tiny_block]\<rparr>)
   \<and> load_model_weights tiny_model ''weights.bin''
     (one_file ''weights.bin''
        (header_bytes (tiny_config\<lparr>dropout_rate := float_1_0\<rparr>) @ tensor_bytes tiny_model))
     = Inr (tiny_model\<lparr>transformer_blocks := [placeholder_block tiny_config tiny_block]\<rparr>)"
proof -
  have ok: "dims_ok (config tiny_model)" using tiny_model_wf by (simp add: weights_wf_def)
  have len: "length (transformer_blocks tiny_model) = nat (num_layers (config tiny_model))"
    using tiny_model_wf by (simp add: weights_wf_def)
  have res: "tiny_model\<lparr>embedding_weights := embedding_weights tiny_model,
        position_embeddings := position_embeddings tiny_model,
        transformer_blocks := map (placeholder_block (config tiny_model)) (transformer_blocks tiny_model),
        output_projection := output_projection tiny_model\<rparr>
      = tiny_model\<lparr>transformer_blocks := [placeholder_block tiny_config tiny_block]\<rparr>"
    by (simp add: tiny_model_def)
  have "load_weights_body tiny_model (header_bytes hdr @ tensor_bytes tiny_model)
      = Inr (tiny_model\<lparr>transformer_blocks := [placeholder_block tiny_config tiny_block]\<rparr>)"
    if "model_dim hdr = 1" "num_layers hdr = 1" "num_heads hdr = 1" "vocab_size hdr = 1" for hdr
    using load_tensor_bytes [OF tiny_model_wf ok refl refl refl refl refl len, of hdr] that
    by (simp add: res) (simp add: tiny_model_def tiny_config_def)
  then show ?thesis
    by (simp add: load_model_weights_Inr tiny_config_def)
qed

text \<open>
  C2. What \<open>save_model_weights\<close> leaves in the file system does not depend on the
  transformer blocks the model holds: two models that differ in their blocks only (in any
  attention, feed-forward or layer-norm tensor) are saved as the same bytes.
\<close>

theorem save_ignores_layer_weights:
  "save_model_weights (m\<lparr>transformer_blocks := blocks\<rparr>) weights_file fs
     = save_model_weights m weights_file fs"
  by (simp add: save_model_weights_def weights_file_bytes_def tensor_bytes_def)

text \<open>
  Saving the model of the smallest configuration and loading the file into the same model
  replaces the query weights \<open>2.0f\<close> of its layer by \<open>0.1f\<close>.
\<close>

theorem save_then_load_tiny_model:
  "\<exists>fs. save_model_weights tiny_model ''weights.bin'' (one_file ''vocab.txt'' []) = Inr fs
     \<and> load_model_weights tiny_model ''weights.bin'' fs
         = Inr (tiny_model\<lparr>transformer_blocks := [placeholder_block tiny_config tiny_block]\<rparr>)
     \<and> query_weights (attention tiny_block) = const_matrix 1 1 float_2_0
     \<and> query_weights (attention (placeholder_block tiny_config tiny_block)) = const_matrix 1 1 float_0_1
     \<and> float_0_1 \<noteq> float_2_0"
proof -
  have ok: "dims_ok (config tiny_model)" using tiny_model_wf by (simp add: weights_wf_def)
  have len: "length (transformer_blocks tiny_model) = nat (num_layers (config tiny_model))"
    using tiny_model_wf by (simp add: weights_wf_def)
  have "load_weights_body tiny_model (weights_file_bytes tiny_model)
      = Inr (tiny_model\<lparr>transformer_blocks := [placeholder_block tiny_config tiny_block]\<rparr>)"
    using load_tensor_bytes [OF tiny_model_wf ok refl refl refl refl refl len, of "config tiny_model"]
    by (simp add: weights_file_bytes_def) (simp add: tiny_model_def)
  then show ?thesis
    by (simp add: save_model_weights_def load_model_weights_def one_file_def)
      (simp add: tiny_block_def placeholder_block_def tiny_config_def float_0_1_def float_2_0_def)
qed



section \<open>Properties of softmax with temperature\<close>


lemma foldl_add_sum_list: "foldl (+) a xs = a + sum_list (xs :: real list)"
  by (induction xs arbitrary: a) simp_all

lemma std_exp_0 [simp]: "std_exp 0 = 1"
  by (simp add: std_exp_def)

lemma std_exp_nonneg [simp]: "0 \<le> std_exp x"
  by (simp add: std_exp_def)

lemma std_exp_mono: "x \<le> y \<Longrightarrow> std_exp x \<le> std_exp y"
  by (simp add: std_exp_def)

lemma std_exp_less_1: "x < 0 \<Longrightarrow> std_exp x < 1"
  by (simp add: std_exp_def)


lemma sum_list_std_exp_ge_1:
  fixes f :: "real \<Rightarrow> real"
  assumes "x \<in> set xs" "f x = 0"
  shows "1 \<le> sum_list (map (\<lambda>x. std_exp (f x)) xs)"
proof -
  have "std_exp (f x) \<le> sum_list (map (\<lambda>x. std_exp (f x)) xs)"
    using assms(1) by (intro member_le_sum_list) auto
  then show ?thesis by (simp add: assms(2))
qed


lemma softmax_exact:
  "softmax m logits temperature_arg =
     (if logits = [] then Probabilities []
      else (let temp = (if temperature_arg > 0 then temperature_arg else temperature m);
                max_val = logits ! max_element logits;
                exp_values = map (\<lambda>x. std_exp ((x - max_val) / temp)) logits;
                sum_exp = foldl (+) 0 exp_values
            in if temp = 0 then NotANumbers (length logits)
               else if temp < 0 \<and> FLT_MAX < sum_exp
               then Overflowed (map (\<lambda>e. FLT_MAX < e) exp_values)
               else Probabilities (map (\<lambda>e. e / sum_exp) exp_values)))"
  by (simp add: softmax_def softmax_fl_def)


section \<open>Running the model with four tokens\<close>


lemma upt2: "[0..<2] = [0, 1]" by (simp add: upt_rec)
lemma upt4: "[0..<4] = [0, 1, 2, 3]" by (simp add: upt_rec)

lemma ln1: "layer_norm small_block \<lparr>rows = 1, cols = 1, data = [x]\<rparr> [1] [0]
   = Inr \<lparr>rows = 1, cols = 1, data = [0]\<rparr>"
  by (simp add: layer_norm_def small_block_def size_t_of_int_def Matrix_tabulate_def layer_norm_row_def cell_def Let_def)

lemma attn1: "MultiHeadAttention_forward (attention small_block) \<lparr>rows = 1, cols = 1, data = [0]\<rparr>
    (Some (create_attention_mask 1)) = Inr \<lparr>rows = 1, cols = 1, data = [0]\<rparr>"
  by (simp add: MultiHeadAttention_forward_def small_block_def Matrix_mul_def const_matrix_def bind_err_def
     Matrix_tabulate_def cell_def size_t_of_int_def scaled_dot_product_attention_def Matrix_transpose_def
     create_attention_mask_def row_softmax_def max_from_minus_infinity_def Let_def)


lemmas num_defs = layer_norm_def small_block_def size_t_of_int_def Matrix_tabulate_def layer_norm_row_def
  cell_def Let_def MultiHeadAttention_forward_def Matrix_mul_def const_matrix_def bind_err_def
  scaled_dot_product_attention_def Matrix_transpose_def create_attention_mask_def row_softmax_def
  max_from_minus_infinity_def TransformerBlock_forward_def add_residual_def FeedForwardNetwork_forward_def
  add_bias_def alloc_ok_def gelu_activation_def gelu_def

lemma block1: "TransformerBlock_forward small_block \<lparr>rows = 1, cols = 1, data = [x]\<rparr>
    (Some (create_attention_mask 1)) = Inr \<lparr>rows = 1, cols = 1, data = [x]\<rparr>"
  by (simp add: num_defs)

lemma block2: "TransformerBlock_forward small_block \<lparr>rows = 2, cols = 1, data = [x, y]\<rparr>
    (Some (create_attention_mask 2)) = Inr \<lparr>rows = 2, cols = 1, data = [x, y]\<rparr>"
  by (simp add: num_defs upt2)

lemma init: "is_initialized (small_model p)"
  by (simp add: is_initialized_def small_model_def BPETokenizer_new_def tokenizer_vocab_size_def
     Vocabulary_size_def Vocabulary_new_def add_token_def UNK_TOKEN_def PAD_TOKEN_def BOS_TOKEN_def EOS_TOKEN_def Let_def)

lemma fwd1: "forward (small_model [a, b, c, d]) [0] = Inr [a, b, c, d]"
  using block1 [of 1]
  by (simp add: forward_def init Let_def)
    (simp add: small_model_def small_config_def size_t_of_int_def int_of_size_t_def bind_err_def
      const_matrix_def cell_def Matrix_mul_def Matrix_tabulate_def alloc_ok_def upt4)

lemma block2': "TransformerBlock_forward small_block \<lparr>rows = Suc (Suc 0), cols = Suc 0, data = [x, y]\<rparr>
    (Some (create_attention_mask 2)) = Inr \<lparr>rows = 2, cols = 1, data = [x, y]\<rparr>"
  using block2 [of x y] by (simp add: numeral_2_eq_2)

lemma fwd2: "forward (small_model [a, b, c, d]) [0, 3] = Inr [a, b, c, d]"
  using block2' [of 1 1]
  by (simp add: forward_def init Let_def)
    (simp add: small_model_def small_config_def size_t_of_int_def int_of_size_t_def bind_err_def
      const_matrix_def cell_def Matrix_mul_def Matrix_tabulate_def alloc_ok_def upt4 upt2)

lemma tok: "tokenize (small_model p) ''a'' = Inr [0]"
  by (simp add: tokenize_def small_model_def encode_def preprocess_text_def preprocess_char_def
     split_to_words_def isspace_def bpe_encode_def BPETokenizer_new_def get_token_id_def
     Vocabulary_new_def add_token_def UNK_TOKEN_def PAD_TOKEN_def BOS_TOKEN_def EOS_TOKEN_def Let_def int_of_size_t_def)

lemma detok: "detokenize (small_model p) [3, 3] = Inr ''<eos><eos>''"
  by (simp add: detokenize_def small_model_def decode_def BPETokenizer_new_def get_token_def
     Vocabulary_new_def add_token_def UNK_TOKEN_def PAD_TOKEN_def BOS_TOKEN_def EOS_TOKEN_def Let_def int_of_size_t_def size_t_of_int_def)




lemma max_element_map:
  fixes f :: "'a::linorder \<Rightarrow> 'b::linorder"
  assumes "xs \<noteq> []"
    and mono: "\<And>x y. x \<le> y \<Longrightarrow> f x \<le> f y"
    and top: "\<And>x. x < xs ! max_element xs \<Longrightarrow> f x < f (xs ! max_element xs)"
  shows "max_element (map f xs) = max_element xs"
proof -
  let ?a = "max_element xs" and ?b = "max_element (map f xs)"
  have ne: "map f xs \<noteq> []" using assms(1) by simp
  have a: "?a < length xs" using max_element_spec(1) [OF assms(1)] .
  have b: "?b < length xs" using max_element_spec(1) [OF ne] by simp
  have "\<not> ?b < ?a"
  proof
    assume "?b < ?a"
    then have "xs ! ?b < xs ! ?a" using max_element_spec(3) [OF assms(1)] by blast
    then have "f (xs ! ?b) < f (xs ! ?a)" by (rule top)
    moreover have "map f xs ! ?a \<le> map f xs ! ?b"
      using max_element_spec(2) [OF ne] a by simp
    ultimately show False using a b by simp
  qed
  moreover have "\<not> ?a < ?b"
  proof
    assume "?a < ?b"
    then have "map f xs ! ?a < map f xs ! ?b" using max_element_spec(3) [OF ne] by blast
    then have "f (xs ! ?a) < f (xs ! ?b)" using a b by simp
    moreover have "xs ! ?b \<le> xs ! ?a" using max_element_spec(2) [OF assms(1)] b by blast
    ultimately show False using mono [of "xs ! ?b" "xs ! ?a"] by simp
  qed
  ultimately show ?thesis by simp
qed

lemma sample_softmax:
  assumes "logits \<noteq> []" "length logits < 2 ^ 31" "0 < (if t > 0 then t else temperature m)"
  shows "sample (softmax m logits t) = Inr (int (max_element logits))"
proof -
  let ?t = "if t > 0 then t else temperature m"
  let ?mx = "logits ! max_element logits"
  let ?es = "map (\<lambda>x. std_exp ((x - ?mx) / ?t)) logits"
  let ?f = "\<lambda>x. std_exp ((x - ?mx) / ?t) / sum_list ?es"
  have mem: "?mx \<in> set logits"
    using max_element_spec(1) [OF assms(1)] by simp
  have pos: "0 < sum_list ?es"
    using sum_list_std_exp_ge_1 [OF mem, of "\<lambda>x. (x - ?mx) / ?t"] by simp
  have mono: "?f x \<le> ?f y" if "x \<le> y" for x y
  proof -
    have "(x - ?mx) / ?t \<le> (y - ?mx) / ?t"
      using that assms(3) by (simp add: divide_right_mono)
    then show ?thesis using pos by (simp add: divide_right_mono std_exp_mono)
  qed
  have top: "?f x < ?f ?mx" if "x < ?mx" for x
  proof -
    have "(x - ?mx) / ?t < 0" using that assms(3) by (simp add: divide_neg_pos)
    then have "std_exp ((x - ?mx) / ?t) < 1" by (rule std_exp_less_1)
    then show ?thesis using pos by (simp add: divide_strict_right_mono)
  qed
  have sm: "softmax m logits t = Probabilities (map ?f logits)"
    using assms(1,3) by (simp add: softmax_exact Let_def foldl_add_sum_list comp_def)
  have k: "max_element logits < 2 ^ 31"
    using max_element_spec(1) [OF assms(1)] assms(2) by simp
  have "max_element (map ?f logits) = max_element logits"
    using assms(1) mono top by (rule max_element_map)
  then show ?thesis
    using assms(1) k
    by (simp add: sm sample_def sample_token_def int_of_size_t_small)
qed

lemma me3: "max_element [0, 0, 0, 1 :: real] = 3"
  by (simp add: max_element_def)

lemma me2: "max_element [0, 0, 1, 0 :: real] = 2"
  by (simp add: max_element_def)

lemma small_cfg [simp]: "config (small_model p) = small_config" "temperature (small_model p) = 1"
  by (simp_all add: small_model_def)

lemma eos_id: "eos_token_id (vocab BPETokenizer_new) = 3"
  by (simp add: BPETokenizer_new_def Vocabulary_new_def add_token_def UNK_TOKEN_def PAD_TOKEN_def
      BOS_TOKEN_def EOS_TOKEN_def Let_def int_of_size_t_def)

text \<open>
  C4. The tokenizer of a freshly built model gives \<open><eos>\<close> the id 3 and \<open><bos>\<close> the id
  2. With an output projection that makes token 3 the most probable one, two tokens are
  asked for and two are generated: the loop goes on after it has sampled the
  end-of-sequence id. With an output projection that favours token 2, the loop stops
  after the first token although two were asked for.
\<close>

theorem generation_goes_on_after_eos:
  "eos_token_id (vocab BPETokenizer_new) = 3
   \<and> generate_text (small_model [0, 0, 0, 1]) ''a'' 2 1 = Inr ''a<eos><eos>''
   \<and> bos_token_id (vocab BPETokenizer_new) = 2
   \<and> generate_text (small_model [0, 0, 1, 0]) ''a'' 2 1 = Inr ''a<bos>''"
proof -
  have s3: "sample (softmax (small_model p) [0, 0, 0, 1] 1) = Inr 3" for p
    using sample_softmax [of "[0, 0, 0, 1]" 1 "small_model p"] by (simp add: me3)
  have s2: "sample (softmax (small_model p) [0, 0, 1, 0] 1) = Inr 2" for p
    using sample_softmax [of "[0, 0, 1, 0]" 1 "small_model p"] by (simp add: me2)
  have "generate_loop (small_model [0, 0, 0, 1]) 1 (Suc (Suc 0)) [0] = Inr [0, 3, 3]"
    by (simp add: fwd1 fwd2 s3 bind_err_def small_config_def size_t_of_int_def)
  then have loop3: "generate_loop (small_model [0, 0, 0, 1]) 1 2 [0] = Inr [0, 3, 3]"
    by (simp add: numeral_2_eq_2)
  have "generate_loop (small_model [0, 0, 1, 0]) 1 (Suc (Suc 0)) [0] = Inr [0, 2]"
    by (simp add: fwd1 s2 bind_err_def small_config_def size_t_of_int_def)
  then have loop2: "generate_loop (small_model [0, 0, 1, 0]) 1 2 [0] = Inr [0, 2]"
    by (simp add: numeral_2_eq_2)
  have trunc: "truncate_prompt (small_model p) [0] = Inr [0]" for p
    by (simp add: truncate_prompt_def small_config_def size_t_of_int_def)
  have d3: "detokenize (small_model p) [3, 3] = Inr ''<eos><eos>''" for p by (rule detok)
  have d2: "detokenize (small_model p) [2] = Inr ''<bos>''" for p
    by (simp add: detokenize_def small_model_def decode_def BPETokenizer_new_def get_token_def
     Vocabulary_new_def add_token_def UNK_TOKEN_def PAD_TOKEN_def BOS_TOKEN_def EOS_TOKEN_def Let_def int_of_size_t_def size_t_of_int_def)
  have b: "bos_token_id (vocab BPETokenizer_new) = 2"
    by (simp add: BPETokenizer_new_def Vocabulary_new_def add_token_def UNK_TOKEN_def PAD_TOKEN_def
      BOS_TOKEN_def EOS_TOKEN_def Let_def int_of_size_t_def)
  have g3: "generate_text (small_model [0, 0, 0, 1]) ''a'' 2 1 = Inr ''a<eos><eos>''"
    by (simp add: generate_text_def init tok trunc loop3 d3 bind_err_def)
  have g2: "generate_text (small_model [0, 0, 1, 0]) ''a'' 2 1 = Inr ''a<bos>''"
    by (simp add: generate_text_def init tok trunc loop2 d2 bind_err_def)
  show ?thesis using eos_id b g3 g2 by simp
qed



section \<open>A freshly constructed model\<close>


lemma tokenizer_new_size: "tokenizer_vocab_size BPETokenizer_new = 4"
  by (simp add: BPETokenizer_new_def tokenizer_vocab_size_def Vocabulary_size_def Vocabulary_new_def
      add_token_def UNK_TOKEN_def PAD_TOKEN_def BOS_TOKEN_def EOS_TOKEN_def Let_def)

lemma constructed_model_is_initialized:
  "TinyLlamaModel_new one cfg rnd = Inr m \<Longrightarrow> is_initialized m"
  by (auto simp: TinyLlamaModel_new_def bind_err_def is_initialized_def tokenizer_new_size
      split: sum.splits)

lemma fresh_small: "TinyLlamaModel_new 1 small_config (\<lambda>_. ([q], [k], [v], [w]))
  = Inr \<lparr>tokenizer = Some BPETokenizer_new,
      embedding_weights = const_matrix 4 1 0,
      position_embeddings = const_matrix 4 1 0,
      transformer_blocks = [small_block\<lparr>attention := (attention small_block)\<lparr>
         query_weights := const_matrix 1 1 q, key_weights := const_matrix 1 1 k,
         value_weights := const_matrix 1 1 v, output_weights := const_matrix 1 1 w\<rparr>\<rparr>],
      output_projection = const_matrix 1 4 0,
      config = small_config, temperature = 1\<rparr>"
  by (simp add: TinyLlamaModel_new_def small_config_def bind_err_def TransformerBlock_new_def
      MultiHeadAttention_new_def FeedForwardNetwork_new_def Matrix_new_def Matrix_fill_def
      size_t_of_int_def c_rem_def c_quot_def const_matrix_def small_block_def)


lemma upt3: "[0..<3] = [0, 1, 2]" by (simp add: upt_rec)

lemma block3: "TransformerBlock_forward (fresh_block q k v w) \<lparr>rows = 3, cols = 1, data = [x, y, z]\<rparr>
    (Some (create_attention_mask 3)) = Inr \<lparr>rows = 3, cols = 1, data = [x, y, z]\<rparr>"
  by (simp add: num_defs upt3 fresh_block_def)


lemma rep4: "replicate 4 x = [x, x, x, x]"
proof -
  have "(4::nat) = Suc (Suc (Suc (Suc 0)))" by simp
  then show ?thesis by (simp only: replicate.simps)
qed

lemma block3': "TransformerBlock_forward (fresh_block q k v w)
    \<lparr>rows = Suc (Suc (Suc 0)), cols = Suc 0, data = [x, y, z]\<rparr>
    (Some (create_attention_mask 3)) = Inr \<lparr>rows = 3, cols = 1, data = [x, y, z]\<rparr>"
  using block3 [of q k v w x y z] by (simp add: numeral_3_eq_3)

text \<open>
  C3. A model built by the constructor for the configuration with four tokens, whatever
  values \<open>rand()\<close> gave its attention matrices, and on which nothing has been loaded:
  \<open>is_initialized\<close> holds and \<open>forward\<close> on three tokens returns four logits.
\<close>

theorem fresh_model_is_initialized:
  "\<exists>m. TinyLlamaModel_new 1 small_config (\<lambda>layer. ([q], [k], [v], [w])) = Inr m
      \<and> is_initialized m \<and> forward m [1, 2, 3] = Inr [0, 0, 0, 0]"
proof -
  let ?m = "\<lparr>tokenizer = Some BPETokenizer_new,
      embedding_weights = const_matrix 4 1 0,
      position_embeddings = const_matrix 4 1 0,
      transformer_blocks = [fresh_block q k v w],
      output_projection = const_matrix 1 4 0,
      config = small_config, temperature = 1 :: real\<rparr>"
  have new: "TinyLlamaModel_new 1 small_config (\<lambda>layer. ([q], [k], [v], [w])) = Inr ?m"
    by (simp add: fresh_small fresh_block_def)
  then have init: "is_initialized ?m" by (rule constructed_model_is_initialized)
  have "forward ?m [1, 2, 3] = Inr [0, 0, 0, 0]"
    using block3' [of q k v w 0 0 0] init
    by (simp add: forward_def Let_def small_config_def size_t_of_int_def int_of_size_t_def
        bind_err_def const_matrix_def cell_def Matrix_mul_def Matrix_tabulate_def alloc_ok_def
        upt4 upt3 rep4)
  with new init show ?thesis by blast
qed


section \<open>Softmax with rounded operations\<close>

subsection \<open>The sum \<open>sum_exp\<close> of rounded additions\<close>






subsection \<open>The result as a distribution\<close>



subsection \<open>Softmax outside the numbers\<close>




section \<open>The stored temperature and determinism\<close>


lemma embed_tokens_temperature [simp]:
  "embed_tokens (m\<lparr>temperature := t\<rparr>) i toks = embed_tokens m i toks"
proof (induction toks arbitrary: i)
  case Nil
  show ?case by simp
next
  case (Cons a toks)
  show ?case
    by (simp only: embed_tokens.simps Cons.IH Let_def) (simp cong: if_cong)
qed

lemma is_initialized_temperature [simp]: "is_initialized (m\<lparr>temperature := t\<rparr>) = is_initialized m"
  by (simp add: is_initialized_def)

lemma forward_temperature [simp]: "forward (m\<lparr>temperature := t\<rparr>) toks = forward m toks"
  by (simp only: forward_def Let_def) (simp cong: if_cong)

lemma softmax_positive_argument:
  "0 < a \<Longrightarrow> softmax (m\<lparr>temperature := t\<rparr>) logits a = softmax m logits a"
  by (simp add: softmax_exact)

lemma generate_loop_temperature:
  "0 < a \<Longrightarrow> generate_loop (m\<lparr>temperature := t\<rparr>) a n toks = generate_loop m a n toks"
  by (induction n arbitrary: toks) (simp_all add: softmax_positive_argument cong: if_cong)

lemma generate_text_temperature:
  "0 < a \<Longrightarrow> generate_text (m\<lparr>temperature := t\<rparr>) prompt n a = generate_text m prompt n a"
  by (simp add: generate_text_def generate_loop_temperature tokenize_def detokenize_def
      truncate_prompt_def cong: if_cong sum.case_cong)

text \<open>
  C10. \<open>TinyLlama::generate\<close> returns the same result, text or error, whatever
  temperature is stored in the model.
\<close>

theorem generate_ignores_stored_temperature:
  "generate (f\<lparr>model := (model f)\<lparr>temperature := t\<rparr>\<rparr>) prompt max_tokens
     = generate f prompt max_tokens"
  by (simp add: generate_def generate_text_temperature cong: if_cong option.case_cong)

section \<open>Calls of \<open>generate_text\<close> in a process\<close>









section \<open>Causal attention\<close>

subsection \<open>Cells of the matrices the loops build\<close>


lemma tabulate_dims [simp]:
  "rows (Matrix_tabulate r c f) = r" "cols (Matrix_tabulate r c f) = c"
  by (simp_all add: Matrix_tabulate_def)














subsection \<open>Keys and values of later positions\<close>



subsection \<open>A row whose allowed scores are all below the sentinel\<close>





end
